theory Spec2Isabelle
  imports Complex_Main
begin

section \<open>The debt payoff executor of the finance agent\<close>

text \<open>
  This theory embeds \<^verbatim>\<open>src/nodes/executors/finance_debt_payoff.py\<close> together with
  the field constraints of \<^verbatim>\<open>src/schemas/finance_debt_plan.py\<close>.

  Numbers. Python's \<^verbatim>\<open>float\<close> values are modelled as exact rationals and Python's
  \<^verbatim>\<open>int\<close> values as \<open>int\<close>. The arithmetic of the source (\<^verbatim>\<open>+\<close>, \<^verbatim>\<open>-\<close>,
  \<^verbatim>\<open>*\<close>, \<^verbatim>\<open>/\<close>, \<^verbatim>\<open>**\<close>) is the exact arithmetic of \<open>rat\<close>; the binary
  representation error of IEEE doubles, overflow, infinities and NaN are outside the
  model. \<^verbatim>\<open>round(x, n)\<close> rounds the exact value of its argument to \<open>n\<close> decimals,
  a tie going to the even neighbour, which is what Python computes from the exact value
  of a float.
\<close>

subsection \<open>Python primitives\<close>

definition py_round :: "rat \<Rightarrow> nat \<Rightarrow> rat" where
  "py_round x ndigits =
     (let scaled = x * 10 ^ ndigits;
          lower = \<lfloor>scaled\<rfloor>;
          frac = scaled - of_int lower
      in of_int (if frac < 1 / 2 then lower
                 else if 1 / 2 < frac then lower + 1
                 else if even lower then lower else lower + 1) / 10 ^ ndigits)"

text \<open>
  The exceptions the modelled code can raise: a field constraint of a pydantic model
  fails (\<open>ValidationError\<close>), or a division by zero.
\<close>

datatype py_error = ValidationError | ZeroDivisionError

subsection \<open>The required payment\<close>

text \<open>
  \<^verbatim>\<open>_calc_required_payment(debt, rate, months, bonus)\<close>. A division by zero and a zero
  base raised to a negative power raise \<^verbatim>\<open>ZeroDivisionError\<close> in Python.
\<close>

definition calc_required_payment :: "rat \<Rightarrow> rat \<Rightarrow> int \<Rightarrow> rat \<Rightarrow> py_error + rat" where
  "calc_required_payment debt rate months bonus =
     (if rate = 0 then
        (if months = 0 then Inl ZeroDivisionError
         else Inr (py_round (max 0 ((debt - bonus) / of_int months)) 2))
      else
        (let effective = max 0 (debt - bonus) in
         if 1 + rate = 0 \<and> - months < 0 then Inl ZeroDivisionError
         else
           (let denominator = 1 - power_int (1 + rate) (- months) in
            if denominator = 0 then Inl ZeroDivisionError
            else Inr (py_round ((rate * effective) / denominator) 2))))"

subsection \<open>The schema\<close>

text \<open>
  The pydantic models of \<^verbatim>\<open>schemas/finance_debt_plan.py\<close> as records. A Python
  \<^verbatim>\<open>str\<close> built by an f-string is kept as the list of its parts (literal text and
  the values formatted into it), so that the decimal rendering of numbers needs no model.
\<close>

datatype part = Txt string | IntV int | NumV rat

type_synonym fstring = "part list"

record OneTimePayment =
  month :: int
  amount :: rat
  description :: "string option"

record MonthlyPaymentRow =
  row_month :: int
  row_salary :: rat
  row_fixed_expenses :: rat
  savings_amount :: rat
  debt_payment :: rat
  one_time_payment :: rat
  total_payment :: rat
  interest_charged :: rat
  remaining_balance :: rat

record FinanceDebtPlan =
  plan_name :: fstring
  salary :: rat
  fixed_expenses :: rat
  initial_debt :: rat
  monthly_interest_rate :: rat
  months :: int
  savings_rate :: rat
  one_time_payments :: "OneTimePayment list"
  monthly_rows :: "MonthlyPaymentRow list"
  final_balance :: rat
  total_saved :: rat
  total_interest_paid :: rat
  total_regular_payments :: rat
  total_one_time_payments :: rat
  is_debt_cleared :: bool
  months_to_payoff :: "int option"
  recommended_payment :: "rat option"
  validation_errors :: "fstring list"
  created_date :: string
  payoff_strategy :: string

text \<open>
  Constructing a model checks its field constraints and raises \<^verbatim>\<open>ValidationError\<close>
  when one fails: \<^verbatim>\<open>gt=0\<close> on \<open>month\<close> and \<open>amount\<close> of a one-time payment;
  \<^verbatim>\<open>gt=0\<close> on \<open>salary\<close>, \<open>fixed_expenses\<close>, \<open>initial_debt\<close> and \<open>months\<close>, and
  \<^verbatim>\<open>ge=0, le=1\<close> on \<open>monthly_interest_rate\<close> and \<open>savings_rate\<close> of a plan. A monthly
  row has no constraint.
\<close>

definition new_OneTimePayment :: "OneTimePayment \<Rightarrow> py_error + OneTimePayment" where
  "new_OneTimePayment otp =
     (if 0 < month otp \<and> 0 < amount otp then Inr otp else Inl ValidationError)"

definition new_FinanceDebtPlan :: "FinanceDebtPlan \<Rightarrow> py_error + FinanceDebtPlan" where
  "new_FinanceDebtPlan plan =
     (if 0 < salary plan \<and> 0 < fixed_expenses plan \<and> 0 < initial_debt plan
         \<and> 0 \<le> monthly_interest_rate plan \<and> monthly_interest_rate plan \<le> 1
         \<and> 0 < months plan
         \<and> 0 \<le> savings_rate plan \<and> savings_rate plan \<le> 1
      then Inr plan else Inl ValidationError)"

subsection \<open>The parameters\<close>

text \<open>
  The \<^verbatim>\<open>params\<close> dictionary as \<^verbatim>\<open>_calculate_debt_payoff_plan\<close> reads it, each value
  after the \<^verbatim>\<open>float(...)\<close> or \<^verbatim>\<open>int(...)\<close> the code applies to it. The two keys read
  with \<^verbatim>\<open>params.get(key, default)\<close> are optional. An element of the list under
  \<^verbatim>\<open>"one_time_payments"\<close> is either not a dictionary, or a dictionary in which each of
  \<^verbatim>\<open>"month"\<close>, \<^verbatim>\<open>"amount"\<close> and \<^verbatim>\<open>"description"\<close> may be absent (a present
  description may be \<^verbatim>\<open>None\<close>).
\<close>

datatype raw_otp =
  NotADict
  | OtpDict (raw_month: "int option") (raw_amount: "rat option")
      (raw_description: "string option option")

record params =
  param_salary :: rat
  param_fixed_expenses :: rat
  param_debt_amount :: rat
  param_interest_rate_percent :: rat
  param_months :: int
  param_savings_rate_percent :: "rat option"
  param_one_time_payments :: "raw_otp list option"

subsection \<open>The amortization engine\<close>

text \<open>
  Lines 199 to 210: the entries that are dictionaries with a month and an amount are
  appended to the list \<^verbatim>\<open>one_time_payments\<close> (here \<open>payments\<close>) and written into
  the dictionary \<^verbatim>\<open>one_time_by_month\<close> (here \<open>by_month\<close>), a later entry of a month
  overwriting an earlier one.
\<close>

fun parse_one_time_payments ::
  "raw_otp list \<Rightarrow> OneTimePayment list \<Rightarrow> (int \<rightharpoonup> rat) \<Rightarrow>
     py_error + (OneTimePayment list \<times> (int \<rightharpoonup> rat))" where
  "parse_one_time_payments [] payments by_month = Inr (payments, by_month)"
| "parse_one_time_payments (OtpDict (Some m) (Some a) d # rest) payments by_month =
     (let amt = py_round a 2;
          desc = (case d of None \<Rightarrow> Some ''One-time payment'' | Some v \<Rightarrow> v)
      in case new_OneTimePayment \<lparr>month = m, amount = amt, description = desc\<rparr> of
           Inl e \<Rightarrow> Inl e
         | Inr otp \<Rightarrow>
             parse_one_time_payments rest (payments @ [otp]) (by_month(m \<mapsto> amt)))"
| "parse_one_time_payments (_ # rest) payments by_month =
     parse_one_time_payments rest payments by_month"

text \<open>
  The values computed before the loop and read in it, and the variables the loop updates.
\<close>

record locals =
  l_salary :: rat
  l_fixed_expenses :: rat
  l_savings_amount :: rat
  l_regular_payment :: rat
  l_monthly_rate :: rat
  l_one_time_by_month :: "int \<rightharpoonup> rat"

record sim =
  balance :: rat
  total_interest :: rat
  total_saved :: rat
  total_regular :: rat
  total_one_time :: rat
  rows :: "MonthlyPaymentRow list"

text \<open>
  Lines 240 to 254, the early payoff check: from the balance, the interest and the
  tentative regular payment, one-time payment, total and new balance, the adjusted
  regular payment, one-time payment, total and new balance.
\<close>

definition early_payoff :: "rat \<Rightarrow> rat \<Rightarrow> rat \<Rightarrow> rat \<Rightarrow> rat \<Rightarrow> rat \<Rightarrow> rat \<times> rat \<times> rat \<times> rat" where
  "early_payoff bal interest tentative_regular tentative_one_time tentative_total new_balance =
     (if new_balance < 0 then
        (let needed = py_round (bal + interest) 2;
             (regular', one_time') =
               (if 0 < tentative_one_time then
                  (let reduction = min tentative_one_time \<bar>new_balance\<bar>;
                       one_time' = py_round (tentative_one_time - reduction) 2;
                       remaining_over = \<bar>new_balance\<bar> - reduction
                   in (if 0 < remaining_over
                       then py_round (tentative_regular - remaining_over) 2
                       else tentative_regular, one_time'))
                else (py_round needed 2, tentative_one_time))
         in (regular', one_time', py_round (regular' + one_time') 2, 0))
      else (tentative_regular, tentative_one_time, tentative_total, new_balance))"

text \<open>Lines 225 to 277, the body of the loop for one month.\<close>

definition month_step :: "locals \<Rightarrow> int \<Rightarrow> sim \<Rightarrow> sim" where
  "month_step l m s =
     (let interest = py_round (balance s * l_monthly_rate l) 2;
          one_time = (case l_one_time_by_month l m of None \<Rightarrow> 0 | Some a \<Rightarrow> a);
          tentative_total = py_round (l_regular_payment l + one_time) 2;
          new_balance = py_round (balance s + interest - tentative_total) 2;
          (tentative_regular, tentative_one_time, tentative_total, new_balance) =
            early_payoff (balance s) interest (l_regular_payment l) one_time
              tentative_total new_balance
      in \<lparr>balance = new_balance,
          total_interest = py_round (total_interest s + interest) 2,
          total_saved = py_round (total_saved s + l_savings_amount l) 2,
          total_regular = py_round (total_regular s + tentative_regular) 2,
          total_one_time = py_round (total_one_time s + tentative_one_time) 2,
          rows = rows s @
            [\<lparr>row_month = m,
              row_salary = l_salary l,
              row_fixed_expenses = l_fixed_expenses l,
              savings_amount = l_savings_amount l,
              debt_payment = tentative_regular,
              one_time_payment = tentative_one_time,
              total_payment = tentative_total,
              interest_charged = interest,
              remaining_balance = new_balance\<rparr>]\<rparr>)"

text \<open>
  Lines 224 and 280: the loop over \<^verbatim>\<open>range(1, months + 1)\<close>, with the month at which
  the function returns from inside the loop, if it does.
\<close>

fun run_months :: "locals \<Rightarrow> int list \<Rightarrow> sim \<Rightarrow> sim \<times> int option" where
  "run_months l [] s = (s, None)"
| "run_months l (m # rest) s =
     (let s' = month_step l m s
      in if balance s' \<le> 0 then (s', Some m) else run_months l rest s')"

text \<open>
  \<^verbatim>\<open>_calculate_debt_payoff_plan(params)\<close>; the date read from the clock is the
  argument \<open>today\<close>.
\<close>

definition calculate_debt_payoff_plan :: "string \<Rightarrow> params \<Rightarrow> py_error + FinanceDebtPlan" where
  "calculate_debt_payoff_plan today p =
     (let salary = py_round (param_salary p) 2;
          fixed_expenses = py_round (param_fixed_expenses p) 2;
          initial_debt = py_round (param_debt_amount p) 2;
          rate_percent = param_interest_rate_percent p;
          months = param_months p;
          savings_percent = (case param_savings_rate_percent p of None \<Rightarrow> 10 | Some v \<Rightarrow> v);
          monthly_rate = py_round (rate_percent / 100) 6;
          savings_rate = py_round (savings_percent / 100) 4;
          savings_amount = py_round (salary * savings_rate) 2;
          regular_payment = py_round (salary - fixed_expenses - savings_amount) 2
      in case parse_one_time_payments
                (case param_one_time_payments p of None \<Rightarrow> [] | Some v \<Rightarrow> v) [] Map.empty of
           Inl e \<Rightarrow> Inl e
         | Inr (payments, by_month) \<Rightarrow>
             (case run_months
                     \<lparr>l_salary = salary, l_fixed_expenses = fixed_expenses,
                      l_savings_amount = savings_amount, l_regular_payment = regular_payment,
                      l_monthly_rate = monthly_rate, l_one_time_by_month = by_month\<rparr>
                     [1..months]
                     \<lparr>balance = initial_debt, total_interest = 0, total_saved = 0,
                      total_regular = 0, total_one_time = 0, rows = []\<rparr> of
                (s, Some m) \<Rightarrow>
                  new_FinanceDebtPlan
                    \<lparr>plan_name = [IntV months, Txt ''-Month Debt Payoff Plan''],
                     salary = salary,
                     fixed_expenses = fixed_expenses,
                     initial_debt = initial_debt,
                     monthly_interest_rate = monthly_rate,
                     months = months,
                     savings_rate = savings_rate,
                     one_time_payments = payments,
                     monthly_rows = rows s,
                     final_balance = 0,
                     total_saved = total_saved s,
                     total_interest_paid = total_interest s,
                     total_regular_payments = total_regular s,
                     total_one_time_payments = total_one_time s,
                     is_debt_cleared = True,
                     months_to_payoff = Some m,
                     recommended_payment = None,
                     validation_errors = [],
                     created_date = today,
                     payoff_strategy = ''standard''\<rparr>
              | (s, None) \<Rightarrow>
                  (case calc_required_payment initial_debt monthly_rate months
                          (sum_list (map amount payments)) of
                     Inl e \<Rightarrow> Inl e
                   | Inr recommended \<Rightarrow>
                       new_FinanceDebtPlan
                         \<lparr>plan_name = [IntV months, Txt ''-Month Debt Payoff Plan''],
                          salary = salary,
                          fixed_expenses = fixed_expenses,
                          initial_debt = initial_debt,
                          monthly_interest_rate = monthly_rate,
                          months = months,
                          savings_rate = savings_rate,
                          one_time_payments = payments,
                          monthly_rows = rows s,
                          final_balance = balance s,
                          total_saved = total_saved s,
                          total_interest_paid = total_interest s,
                          total_regular_payments = total_regular s,
                          total_one_time_payments = total_one_time s,
                          is_debt_cleared = False,
                          months_to_payoff = None,
                          recommended_payment = Some recommended,
                          validation_errors = [],
                          created_date = today,
                          payoff_strategy = ''standard''\<rparr>)))"

subsection \<open>The plan validator\<close>

text \<open>
  Lines 366 to 389 of \<^verbatim>\<open>_validate_plan\<close>: the checks of the rows, in order, with the
  balance of the row before.
\<close>

fun check_rows :: "rat \<Rightarrow> MonthlyPaymentRow list \<Rightarrow> fstring list" where
  "check_rows prev_balance [] = []"
| "check_rows prev_balance (row # rest) =
     (let expected =
            py_round (prev_balance + interest_charged row - total_payment row) 2
      in (if remaining_balance row < - (1 / 100)
          then [[Txt ''M'', IntV (row_month row), Txt '': Negative balance '',
                 NumV (remaining_balance row)]]
          else [])
         @ (if interest_charged row \<le> total_payment row
               \<and> prev_balance + 1 / 100 < remaining_balance row
            then [[Txt ''M'', IntV (row_month row), Txt '': Balance increased. '',
                   Txt ''Prev='', NumV prev_balance, Txt '', New='',
                   NumV (remaining_balance row)]]
            else [])
         @ (if 2 / 100 < \<bar>remaining_balance row - expected\<bar>
            then [[Txt ''M'', IntV (row_month row), Txt '': Calc mismatch. '',
                   Txt ''Expected='', NumV expected, Txt '', Got='',
                   NumV (remaining_balance row)]]
            else [])
         @ check_rows (remaining_balance row) rest)"

text \<open>Lines 359 to 361: the range check of one one-time payment.\<close>

definition check_bonus_month :: "int \<Rightarrow> OneTimePayment \<Rightarrow> fstring list" where
  "check_bonus_month plan_months otp =
     (if month otp < 1 \<or> plan_months < month otp
      then [[Txt ''Bonus month '', IntV (month otp), Txt '' outside 1-'', IntV plan_months]]
      else [])"

text \<open>\<^verbatim>\<open>_validate_plan(plan, params)\<close>; the body does not read \<^verbatim>\<open>params\<close>.\<close>

definition validate_plan :: "FinanceDebtPlan \<Rightarrow> fstring list" where
  "validate_plan plan =
     (let savings = py_round (salary plan * savings_rate plan) 2;
          available = py_round (salary plan - fixed_expenses plan - savings) 2
      in if available \<le> 0 then [[Txt ''No cash for debt: expenses+savings >= salary'']]
         else concat (map (check_bonus_month (months plan)) (one_time_payments plan))
              @ check_rows (py_round (initial_debt plan) 2) (monthly_rows plan))"

subsection \<open>Parameter extraction\<close>

text \<open>
  The value that \<^verbatim>\<open>json.loads\<close> returns, and a dictionary with string keys.
\<close>

datatype json =
  JNull | JBool bool | JNum rat | JStr string | JList "json list"
  | JDict "(string \<times> json) list"

type_synonym pydict = "string \<rightharpoonup> json"

text \<open>
  Lines 155 to 158: a key of \<open>previous_params\<close> that \<open>params\<close> lacks, or holds with the
  value \<^verbatim>\<open>None\<close>, is copied into \<open>params\<close>.
\<close>

definition merge_previous :: "pydict \<Rightarrow> pydict \<Rightarrow> pydict" where
  "merge_previous previous_params ps =
     (\<lambda>key. case previous_params key of
               None \<Rightarrow> ps key
             | Some v \<Rightarrow> (if ps key = None \<or> ps key = Some JNull then Some v else ps key))"

definition setdefault :: "pydict \<Rightarrow> string \<Rightarrow> json \<Rightarrow> pydict" where
  "setdefault d key v = (if d key = None then d(key \<mapsto> v) else d)"

definition required :: "string list" where
  "required =
     [''salary'', ''fixed_expenses'', ''debt_amount'', ''interest_rate_percent'', ''months'']"

text \<open>Lines 160 to 162: the defaults of the optional keys.\<close>

definition apply_defaults :: "pydict \<Rightarrow> pydict" where
  "apply_defaults d =
     setdefault
       (setdefault (setdefault d ''savings_rate_percent'' (JNum 10)) ''currency'' (JStr ''EGP''))
       ''one_time_payments'' (JList [])"

text \<open>
  \<^verbatim>\<open>_extract_parameters(state)\<close> from line 152 on. The arguments are the result of
  \<^verbatim>\<open>_find_previous_parameters\<close> and the dictionary parsed from the reply of the language
  model; the reply is \<open>None\<close> when the call, the parsing or a dictionary operation raised,
  which the \<^verbatim>\<open>except\<close> clause turns into the result \<^verbatim>\<open>None\<close>.
\<close>

definition extract_parameters :: "pydict \<Rightarrow> pydict option \<Rightarrow> pydict option" where
  "extract_parameters previous_params reply =
     (case reply of
        None \<Rightarrow> None
      | Some loaded \<Rightarrow>
          (let merged = (if dom previous_params \<noteq> {}
                         then merge_previous previous_params loaded else loaded);
               d = apply_defaults merged
           in if list_all (\<lambda>k. d k \<noteq> None) required then Some d else None))"

subsection \<open>The executor\<close>

text \<open>
  The store is the external \<^verbatim>\<open>BaseStore\<close>; it is modelled by the list of the calls of
  its \<^verbatim>\<open>put\<close> made so far, each with its namespace, key and value.
  \<^verbatim>\<open>_store_plan\<close> makes one call of \<^verbatim>\<open>put\<close> and swallows an exception it raises. The
  key is built from the clock and a fresh identifier, so it is an argument.
\<close>

type_synonym store = "((string \<times> string \<times> string) \<times> string \<times> FinanceDebtPlan) list"

definition store_plan :: "store \<Rightarrow> FinanceDebtPlan \<Rightarrow> string \<Rightarrow> string \<Rightarrow> string \<Rightarrow> store" where
  "store_plan st plan assistant_type user_id key =
     st @ [((''finance_debt_plans'', assistant_type, user_id), key, plan)]"

text \<open>
  The JSON document the executor returns as the content of its tool message: the four
  shapes of lines 50, 70, 87 and 104.
\<close>

datatype response =
  ParameterExtractionFailed "string list"
  | ValidationFailed "fstring list" FinanceDebtPlan
  | Success FinanceDebtPlan
  | Raised py_error

text \<open>
  Line 53: the list that the error \<^verbatim>\<open>parameter_extraction_failed\<close> carries under
  \<^verbatim>\<open>"required"\<close>, a literal of the executor.
\<close>

definition reported_required :: "string list" where
  "reported_required =
     [''salary'', ''fixed_expenses'', ''debt_amount'', ''interest_rate'', ''months'']"

text \<open>
  \<^verbatim>\<open>finance_debt_payoff_executor(state, config, store)\<close>. The engine model reads the
  parameters after their coercion to numbers, so the coercion of the extracted dictionary
  (the calls of \<^verbatim>\<open>float\<close> and \<^verbatim>\<open>int\<close> of lines 186 to 191 and 205 to 206, which
  may raise) is the argument \<open>coerce\<close>. The arguments \<open>today\<close> and \<open>key\<close> are the
  readings of the clock.
\<close>

definition finance_debt_payoff_executor ::
  "(pydict \<Rightarrow> py_error + params) \<Rightarrow> string \<Rightarrow> string \<Rightarrow> string \<Rightarrow> string \<Rightarrow>
     store \<Rightarrow> pydict \<Rightarrow> pydict option \<Rightarrow> response \<times> store" where
  "finance_debt_payoff_executor coerce today key assistant_type user_id st previous_params reply =
     (case extract_parameters previous_params reply of
        None \<Rightarrow> (ParameterExtractionFailed reported_required, st)
      | Some d \<Rightarrow>
          if dom d = {} then (ParameterExtractionFailed reported_required, st)
          else
            (case coerce d of
               Inl e \<Rightarrow> (Raised e, st)
             | Inr p \<Rightarrow>
                 (case calculate_debt_payoff_plan today p of
                    Inl e \<Rightarrow> (Raised e, st)
                  | Inr plan \<Rightarrow>
                      (let errors = validate_plan plan
                       in if errors \<noteq> [] then (ValidationFailed errors plan, st)
                          else (Success plan, store_plan st plan assistant_type user_id key)))))"

section \<open>Notions used in the statements\<close>

text \<open>
  The values \<^verbatim>\<open>_calculate_debt_payoff_plan\<close> computes before its loop, as functions
  of the parameters: the values the loop reads, and the variables it starts from.
\<close>

definition engine_locals :: "params \<Rightarrow> (int \<rightharpoonup> rat) \<Rightarrow> locals" where
  "engine_locals p by_month =
     \<lparr>l_salary = py_round (param_salary p) 2,
      l_fixed_expenses = py_round (param_fixed_expenses p) 2,
      l_savings_amount =
        py_round (py_round (param_salary p) 2 *
          py_round ((case param_savings_rate_percent p of None \<Rightarrow> 10 | Some v \<Rightarrow> v) / 100) 4) 2,
      l_regular_payment =
        py_round (py_round (param_salary p) 2 - py_round (param_fixed_expenses p) 2 -
          py_round (py_round (param_salary p) 2 *
            py_round ((case param_savings_rate_percent p of None \<Rightarrow> 10 | Some v \<Rightarrow> v) / 100) 4) 2) 2,
      l_monthly_rate = py_round (param_interest_rate_percent p / 100) 6,
      l_one_time_by_month = by_month\<rparr>"

definition engine_start :: "params \<Rightarrow> sim" where
  "engine_start p =
     \<lparr>balance = py_round (param_debt_amount p) 2, total_interest = 0, total_saved = 0,
      total_regular = 0, total_one_time = 0, rows = []\<rparr>"

definition raw_payments :: "params \<Rightarrow> raw_otp list" where
  "raw_payments p = (case param_one_time_payments p of None \<Rightarrow> [] | Some v \<Rightarrow> v)"

text \<open>An amount of whole cents: a number with at most two decimals.\<close>

definition is_cents :: "rat \<Rightarrow> bool" where
  "is_cents x = (of_int \<lfloor>x * 100\<rfloor> = x * 100)"

text \<open>
  The row that the body of the loop appends in month \<open>m\<close> when the balance before the
  month is \<open>bal\<close>; the row does not depend on the running totals.
\<close>

definition step_row :: "locals \<Rightarrow> int \<Rightarrow> rat \<Rightarrow> MonthlyPaymentRow" where
  "step_row l m bal =
     last (rows (month_step l m
       \<lparr>balance = bal, total_interest = 0, total_saved = 0, total_regular = 0,
        total_one_time = 0, rows = []\<rparr>))"

text \<open>
  The simulation without the stop: the variables of the loop after the body has been run
  for the months \<open>1, \<dots>, k\<close>.
\<close>

primrec sim_after :: "locals \<Rightarrow> sim \<Rightarrow> nat \<Rightarrow> sim" where
  "sim_after l s 0 = s"
| "sim_after l s (Suc k) = month_step l (int (Suc k)) (sim_after l s k)"

text \<open>Line 229: the one-time payment of a month, zero when the dictionary has none.\<close>

definition nominal :: "locals \<Rightarrow> int \<Rightarrow> rat" where
  "nominal l m = (case l_one_time_by_month l m of None \<Rightarrow> 0 | Some a \<Rightarrow> a)"



text \<open>
  The one-time payments that lines 203 to 210 construct from the raw list, in order: one
  for every element that is a dictionary with a month and an amount. The dictionary
  \<^verbatim>\<open>one_time_by_month\<close> that the writes of line 210 leave, and with it the values the
  loop reads.
\<close>

fun accepted :: "raw_otp list \<Rightarrow> OneTimePayment list" where
  "accepted [] = []"
| "accepted (OtpDict (Some m) (Some a) d # rest) =
     \<lparr>month = m, amount = py_round a 2,
      description = (case d of None \<Rightarrow> Some ''One-time payment'' | Some v \<Rightarrow> v)\<rparr>
     # accepted rest"
| "accepted (_ # rest) = accepted rest"

definition written :: "OneTimePayment list \<Rightarrow> (int \<rightharpoonup> rat) \<Rightarrow> (int \<rightharpoonup> rat)" where
  "written payments by_month = fold (\<lambda>otp b. b(month otp \<mapsto> amount otp)) payments by_month"

definition plan_locals :: "params \<Rightarrow> locals" where
  "plan_locals p = engine_locals p (written (accepted (raw_payments p)) Map.empty)"

text \<open>
  The parameters the engine accepts, that is, for which no constructor of the schema
  raises: the rounded salary, expenses and debt are positive, the rounded monthly rate and
  savings rate lie between 0 and 1, there is at least one month, and every one-time
  payment has a positive month and a positive rounded amount.
\<close>

definition valid_params :: "params \<Rightarrow> bool" where
  "valid_params p =
     (0 < py_round (param_salary p) 2
      \<and> 0 < py_round (param_fixed_expenses p) 2
      \<and> 0 < py_round (param_debt_amount p) 2
      \<and> 0 \<le> py_round (param_interest_rate_percent p / 100) 6
      \<and> py_round (param_interest_rate_percent p / 100) 6 \<le> 1
      \<and> 0 < param_months p
      \<and> 0 \<le> py_round ((case param_savings_rate_percent p of None \<Rightarrow> 10 | Some v \<Rightarrow> v) / 100) 4
      \<and> py_round ((case param_savings_rate_percent p of None \<Rightarrow> 10 | Some v \<Rightarrow> v) / 100) 4 \<le> 1
      \<and> list_all (\<lambda>otp. 0 < month otp \<and> 0 < amount otp) (accepted (raw_payments p)))"

text \<open>
  The balance that the simulation without the stop has after month \<open>k\<close>.
\<close>

definition simulated_balance :: "params \<Rightarrow> nat \<Rightarrow> rat" where
  "simulated_balance p k = balance (sim_after (plan_locals p) (engine_start p) k)"

text \<open>
  Read off a plan: the regular payment (salary minus fixed expenses minus the savings
  amount), the one-time payment the simulation takes for a month (the amount of the last
  payment listed for that month, or zero), the balance before the row with index \<open>i\<close>
  (the row of month \<open>i + 1\<close>), the interest on it, and the tentative new balance of that
  month as step 3 of the engine computes it.
\<close>

definition plan_regular :: "FinanceDebtPlan \<Rightarrow> rat" where
  "plan_regular plan =
     py_round (salary plan - fixed_expenses plan
       - py_round (salary plan * savings_rate plan) 2) 2"

definition plan_one_time :: "FinanceDebtPlan \<Rightarrow> int \<Rightarrow> rat" where
  "plan_one_time plan m =
     (case find (\<lambda>otp. month otp = m) (rev (one_time_payments plan)) of
        None \<Rightarrow> 0
      | Some otp \<Rightarrow> amount otp)"

definition opening_balance :: "FinanceDebtPlan \<Rightarrow> nat \<Rightarrow> rat" where
  "opening_balance plan i =
     (if i = 0 then initial_debt plan else remaining_balance (monthly_rows plan ! (i - 1)))"

definition plan_interest :: "FinanceDebtPlan \<Rightarrow> nat \<Rightarrow> rat" where
  "plan_interest plan i = py_round (opening_balance plan i * monthly_interest_rate plan) 2"

definition tentative_balance :: "FinanceDebtPlan \<Rightarrow> nat \<Rightarrow> rat" where
  "tentative_balance plan i =
     py_round (opening_balance plan i + plan_interest plan i
       - py_round (plan_regular plan + plan_one_time plan (int i + 1)) 2) 2"

text \<open>
  The raw list of one-time payments without the entries that a later entry of the same
  month overwrites in \<^verbatim>\<open>one_time_by_month\<close>: of the entries with a month and an
  amount, the last one of every month is kept.
\<close>

fun last_per_month :: "raw_otp list \<Rightarrow> raw_otp list" where
  "last_per_month [] = []"
| "last_per_month (OtpDict (Some m) (Some a) d # rest) =
     (if m \<in> set (map month (accepted rest)) then last_per_month rest
      else OtpDict (Some m) (Some a) d # last_per_month rest)"
| "last_per_month (x # rest) = x # last_per_month rest"

text \<open>Inputs of the examples.\<close>

definition read_as :: "params \<Rightarrow> pydict \<Rightarrow> py_error + params" where
  "read_as p d = Inr p"

definition scenario_A :: params where
  "scenario_A =
     \<lparr>param_salary = 12000, param_fixed_expenses = 7500, param_debt_amount = 20000,
      param_interest_rate_percent = 5 / 2, param_months = 6,
      param_savings_rate_percent = Some 10, param_one_time_payments = Some []\<rparr>"

definition scenario_D :: params where
  "scenario_D =
     \<lparr>param_salary = 5000, param_fixed_expenses = 6000, param_debt_amount = 1000,
      param_interest_rate_percent = 1, param_months = 1,
      param_savings_rate_percent = Some 10, param_one_time_payments = Some []\<rparr>"

definition rows_A :: "MonthlyPaymentRow list" where
  "rows_A =
     [\<lparr>row_month = 1, row_salary = 12000, row_fixed_expenses = 7500,
       savings_amount = 1200, debt_payment = 3300, one_time_payment = 0,
       total_payment = 3300, interest_charged = 500, remaining_balance = 17200\<rparr>,
      \<lparr>row_month = 2, row_salary = 12000, row_fixed_expenses = 7500,
       savings_amount = 1200, debt_payment = 3300, one_time_payment = 0,
       total_payment = 3300, interest_charged = 430, remaining_balance = 14330\<rparr>,
      \<lparr>row_month = 3, row_salary = 12000, row_fixed_expenses = 7500,
       savings_amount = 1200, debt_payment = 3300, one_time_payment = 0,
       total_payment = 3300, interest_charged = 358.25, remaining_balance = 11388.25\<rparr>,
      \<lparr>row_month = 4, row_salary = 12000, row_fixed_expenses = 7500,
       savings_amount = 1200, debt_payment = 3300, one_time_payment = 0,
       total_payment = 3300, interest_charged = 284.71, remaining_balance = 8372.96\<rparr>,
      \<lparr>row_month = 5, row_salary = 12000, row_fixed_expenses = 7500,
       savings_amount = 1200, debt_payment = 3300, one_time_payment = 0,
       total_payment = 3300, interest_charged = 209.32, remaining_balance = 5282.28\<rparr>,
      \<lparr>row_month = 6, row_salary = 12000, row_fixed_expenses = 7500,
       savings_amount = 1200, debt_payment = 3300, one_time_payment = 0,
       total_payment = 3300, interest_charged = 132.06, remaining_balance = 2114.34\<rparr>]"

definition plan_A :: "string \<Rightarrow> FinanceDebtPlan" where
  "plan_A today =
     \<lparr>plan_name = [IntV 6, Txt ''-Month Debt Payoff Plan''],
      salary = 12000, fixed_expenses = 7500, initial_debt = 20000,
      monthly_interest_rate = 0.025, months = 6, savings_rate = 0.1,
      one_time_payments = [], monthly_rows = rows_A,
      final_balance = 2114.34, total_saved = 7200, total_interest_paid = 1914.34,
      total_regular_payments = 19800, total_one_time_payments = 0,
      is_debt_cleared = False, months_to_payoff = None, recommended_payment = Some 3631,
      validation_errors = [], created_date = today, payoff_strategy = ''standard''\<rparr>"

definition reply_D :: pydict where
  "reply_D =
     [''salary'' \<mapsto> JNum 5000, ''fixed_expenses'' \<mapsto> JNum 6000, ''debt_amount'' \<mapsto> JNum 1000,
      ''interest_rate_percent'' \<mapsto> JNum 1, ''months'' \<mapsto> JNum 1]"

definition plan_D :: FinanceDebtPlan where
  "plan_D =
     \<lparr>plan_name = [IntV 1, Txt ''-Month Debt Payoff Plan''],
      salary = 5000, fixed_expenses = 6000, initial_debt = 1000,
      monthly_interest_rate = 1 / 100, months = 1, savings_rate = 1 / 10,
      one_time_payments = [],
      monthly_rows =
        [\<lparr>row_month = 1, row_salary = 5000, row_fixed_expenses = 6000,
          savings_amount = 500, debt_payment = - 1500, one_time_payment = 0,
          total_payment = - 1500, interest_charged = 10, remaining_balance = 2510\<rparr>],
      final_balance = 2510, total_saved = 500, total_interest_paid = 10,
      total_regular_payments = - 1500, total_one_time_payments = 0,
      is_debt_cleared = False, months_to_payoff = None, recommended_payment = Some 1010,
      validation_errors = [], created_date = ''2025-01-01'', payoff_strategy = ''standard''\<rparr>"

definition scenario_B :: params where
  "scenario_B =
     \<lparr>param_salary = 12000, param_fixed_expenses = 7500, param_debt_amount = 6000,
      param_interest_rate_percent = 2.50, param_months = 6,
      param_savings_rate_percent = Some 10,
      param_one_time_payments = Some
        [OtpDict (Some 2) (Some 1000) None,
         OtpDict (Some 2) (Some 3000) (Some (Some ''Bonus''))]\<rparr>"

definition payments_B :: "OneTimePayment list" where
  "payments_B =
        [\<lparr>month = 2, amount = 1000, description = Some ''One-time payment''\<rparr>,
         \<lparr>month = 2, amount = 3000, description = Some ''Bonus''\<rparr>]"

definition rows_B :: "MonthlyPaymentRow list" where
  "rows_B =
     [\<lparr>row_month = 1, row_salary = 12000, row_fixed_expenses = 7500,
       savings_amount = 1200, debt_payment = 3300, one_time_payment = 0,
       total_payment = 3300, interest_charged = 150, remaining_balance = 2850\<rparr>,
      \<lparr>row_month = 2, row_salary = 12000, row_fixed_expenses = 7500,
       savings_amount = 1200, debt_payment = 2921.25, one_time_payment = 0,
       total_payment = 2921.25, interest_charged = 71.25, remaining_balance = 0\<rparr>]"

definition plan_B :: "string \<Rightarrow> FinanceDebtPlan" where
  "plan_B today =
     \<lparr>plan_name = [IntV 6, Txt ''-Month Debt Payoff Plan''],
      salary = 12000, fixed_expenses = 7500, initial_debt = 6000,
      monthly_interest_rate = 1 / 40, months = 6, savings_rate = 1 / 10,
      one_time_payments = payments_B, monthly_rows = rows_B,
      final_balance = 0, total_saved = 2400, total_interest_paid = 221.25,
      total_regular_payments = 6221.25, total_one_time_payments = 0,
      is_debt_cleared = True, months_to_payoff = Some 2, recommended_payment = None,
      validation_errors = [], created_date = today, payoff_strategy = ''standard''\<rparr>"

definition scenario_C :: params where
  "scenario_C =
     \<lparr>param_salary = 12000, param_fixed_expenses = 7500, param_debt_amount = 30000,
      param_interest_rate_percent = 2.50, param_months = 6,
      param_savings_rate_percent = Some 10,
      param_one_time_payments = Some
        [OtpDict (Some 3) (Some 1000) None,
         OtpDict (Some 3) (Some 2000) (Some (Some ''Bonus''))]\<rparr>"

definition payments_C :: "OneTimePayment list" where
  "payments_C =
        [\<lparr>month = 3, amount = 1000, description = Some ''One-time payment''\<rparr>,
         \<lparr>month = 3, amount = 2000, description = Some ''Bonus''\<rparr>]"

definition rows_C :: "MonthlyPaymentRow list" where
  "rows_C =
     [\<lparr>row_month = 1, row_salary = 12000, row_fixed_expenses = 7500,
       savings_amount = 1200, debt_payment = 3300, one_time_payment = 0,
       total_payment = 3300, interest_charged = 750, remaining_balance = 27450\<rparr>,
      \<lparr>row_month = 2, row_salary = 12000, row_fixed_expenses = 7500,
       savings_amount = 1200, debt_payment = 3300, one_time_payment = 0,
       total_payment = 3300, interest_charged = 686.25, remaining_balance = 24836.25\<rparr>,
      \<lparr>row_month = 3, row_salary = 12000, row_fixed_expenses = 7500,
       savings_amount = 1200, debt_payment = 3300, one_time_payment = 2000,
       total_payment = 5300, interest_charged = 620.91, remaining_balance = 20157.16\<rparr>,
      \<lparr>row_month = 4, row_salary = 12000, row_fixed_expenses = 7500,
       savings_amount = 1200, debt_payment = 3300, one_time_payment = 0,
       total_payment = 3300, interest_charged = 503.93, remaining_balance = 17361.09\<rparr>,
      \<lparr>row_month = 5, row_salary = 12000, row_fixed_expenses = 7500,
       savings_amount = 1200, debt_payment = 3300, one_time_payment = 0,
       total_payment = 3300, interest_charged = 434.03, remaining_balance = 14495.12\<rparr>,
      \<lparr>row_month = 6, row_salary = 12000, row_fixed_expenses = 7500,
       savings_amount = 1200, debt_payment = 3300, one_time_payment = 0,
       total_payment = 3300, interest_charged = 362.38, remaining_balance = 11557.50\<rparr>]"

definition plan_C :: "string \<Rightarrow> FinanceDebtPlan" where
  "plan_C today =
     \<lparr>plan_name = [IntV 6, Txt ''-Month Debt Payoff Plan''],
      salary = 12000, fixed_expenses = 7500, initial_debt = 30000,
      monthly_interest_rate = 1 / 40, months = 6, savings_rate = 1 / 10,
      one_time_payments = payments_C, monthly_rows = rows_C,
      final_balance = 11557.50, total_saved = 7200, total_interest_paid = 3357.50,
      total_regular_payments = 19800, total_one_time_payments = 2000,
      is_debt_cleared = False, months_to_payoff = None, recommended_payment = Some (4901.85),
      validation_errors = [], created_date = today, payoff_strategy = ''standard''\<rparr>"

section \<open>Properties\<close>

subsection \<open>Evaluating the floor of a rational numeral\<close>

lemma floor_rat_divide_numeral:
  "\<lfloor>numeral a / numeral b :: rat\<rfloor> = numeral a div numeral b"
  by (metis floor_divide_of_int_eq of_int_numeral)

lemma floor_rat_minus_divide_numeral:
  "\<lfloor>- (numeral a / numeral b) :: rat\<rfloor> = - numeral a div numeral b"
  by (metis divide_minus_left floor_divide_of_int_eq of_int_neg_numeral of_int_numeral)

lemma floor_rat_one_divide_numeral:
  "\<lfloor>1 / numeral b :: rat\<rfloor> = 1 div numeral b"
  by (metis floor_divide_of_int_eq of_int_1 of_int_numeral)

lemma floor_rat_minus_one_divide_numeral:
  "\<lfloor>- (1 / numeral b) :: rat\<rfloor> = - 1 div numeral b"
  by (metis divide_minus_left floor_divide_of_int_eq of_int_minus of_int_1 of_int_numeral)

lemmas floor_rat =
  floor_rat_divide_numeral floor_rat_minus_divide_numeral
  floor_rat_one_divide_numeral floor_rat_minus_one_divide_numeral

subsection \<open>The engine, stage by stage\<close>

lemma calculate_cleared:
  assumes "parse_one_time_payments (raw_payments p) [] Map.empty = Inr (payments, by_month)"
    and "run_months (engine_locals p by_month) [1..param_months p] (engine_start p) = (s, Some m)"
  shows "calculate_debt_payoff_plan today p =
    new_FinanceDebtPlan
      \<lparr>plan_name = [IntV (param_months p), Txt ''-Month Debt Payoff Plan''],
       salary = l_salary (engine_locals p by_month),
       fixed_expenses = l_fixed_expenses (engine_locals p by_month),
       initial_debt = balance (engine_start p),
       monthly_interest_rate = l_monthly_rate (engine_locals p by_month),
       months = param_months p,
       savings_rate =
         py_round ((case param_savings_rate_percent p of None \<Rightarrow> 10 | Some v \<Rightarrow> v) / 100) 4,
       one_time_payments = payments,
       monthly_rows = rows s,
       final_balance = 0,
       total_saved = total_saved s,
       total_interest_paid = total_interest s,
       total_regular_payments = total_regular s,
       total_one_time_payments = total_one_time s,
       is_debt_cleared = True,
       months_to_payoff = Some m,
       recommended_payment = None,
       validation_errors = [],
       created_date = today,
       payoff_strategy = ''standard''\<rparr>"
  using assms
  by (simp add: calculate_debt_payoff_plan_def engine_locals_def engine_start_def
      raw_payments_def Let_def)

lemma calculate_not_cleared:
  assumes "parse_one_time_payments (raw_payments p) [] Map.empty = Inr (payments, by_month)"
    and "run_months (engine_locals p by_month) [1..param_months p] (engine_start p) = (s, None)"
    and "calc_required_payment (balance (engine_start p))
           (l_monthly_rate (engine_locals p by_month)) (param_months p)
           (sum_list (map amount payments)) = Inr recommended"
  shows "calculate_debt_payoff_plan today p =
    new_FinanceDebtPlan
      \<lparr>plan_name = [IntV (param_months p), Txt ''-Month Debt Payoff Plan''],
       salary = l_salary (engine_locals p by_month),
       fixed_expenses = l_fixed_expenses (engine_locals p by_month),
       initial_debt = balance (engine_start p),
       monthly_interest_rate = l_monthly_rate (engine_locals p by_month),
       months = param_months p,
       savings_rate =
         py_round ((case param_savings_rate_percent p of None \<Rightarrow> 10 | Some v \<Rightarrow> v) / 100) 4,
       one_time_payments = payments,
       monthly_rows = rows s,
       final_balance = balance s,
       total_saved = total_saved s,
       total_interest_paid = total_interest s,
       total_regular_payments = total_regular s,
       total_one_time_payments = total_one_time s,
       is_debt_cleared = False,
       months_to_payoff = None,
       recommended_payment = Some recommended,
       validation_errors = [],
       created_date = today,
       payoff_strategy = ''standard''\<rparr>"
  using assms
  by (simp add: calculate_debt_payoff_plan_def engine_locals_def engine_start_def
      raw_payments_def Let_def)

subsection \<open>Scenario D, computed\<close>

lemma locals_D:
  "engine_locals scenario_D Map.empty =
     \<lparr>l_salary = 5000, l_fixed_expenses = 6000, l_savings_amount = 500,
      l_regular_payment = - 1500, l_monthly_rate = 1 / 100,
      l_one_time_by_month = Map.empty\<rparr>"
  by (simp add: engine_locals_def scenario_D_def py_round_def)

lemma start_D:
  "engine_start scenario_D =
     \<lparr>balance = 1000, total_interest = 0, total_saved = 0, total_regular = 0,
      total_one_time = 0, rows = []\<rparr>"
  by (simp add: engine_start_def scenario_D_def py_round_def)

lemma step_D:
  "month_step (engine_locals scenario_D Map.empty) 1 (engine_start scenario_D) =
     \<lparr>balance = 2510, total_interest = 10, total_saved = 500, total_regular = - 1500,
      total_one_time = 0,
      rows =
        [\<lparr>row_month = 1, row_salary = 5000, row_fixed_expenses = 6000,
          savings_amount = 500, debt_payment = - 1500, one_time_payment = 0,
          total_payment = - 1500, interest_charged = 10, remaining_balance = 2510\<rparr>]\<rparr>"
  unfolding locals_D start_D
  by (simp add: month_step_def early_payoff_def py_round_def)

lemma run_D:
  "run_months (engine_locals scenario_D Map.empty) [1..param_months scenario_D]
     (engine_start scenario_D) =
     (\<lparr>balance = 2510, total_interest = 10, total_saved = 500, total_regular = - 1500,
       total_one_time = 0,
       rows =
         [\<lparr>row_month = 1, row_salary = 5000, row_fixed_expenses = 6000,
           savings_amount = 500, debt_payment = - 1500, one_time_payment = 0,
           total_payment = - 1500, interest_charged = 10, remaining_balance = 2510\<rparr>]\<rparr>,
      None)"
proof -
  have "[1..param_months scenario_D] = [1]"
    by (simp add: scenario_D_def upto_rec1)
  then show ?thesis
    by (simp add: step_D)
qed

lemma calculate_D:
  "calculate_debt_payoff_plan ''2025-01-01'' scenario_D = Inr plan_D"
proof -
  have parse: "parse_one_time_payments (raw_payments scenario_D) [] Map.empty = Inr ([], Map.empty)"
    by (simp add: raw_payments_def scenario_D_def)
  have solver: "calc_required_payment (balance (engine_start scenario_D))
      (l_monthly_rate (engine_locals scenario_D Map.empty)) (param_months scenario_D)
      (sum_list (map amount [])) = Inr 1010"
    unfolding locals_D start_D
    by (simp add: scenario_D_def calc_required_payment_def py_round_def power_int_minus)
  show ?thesis
    unfolding calculate_not_cleared [OF parse run_D solver] locals_D start_D
    by (simp add: new_FinanceDebtPlan_def plan_D_def scenario_D_def py_round_def)
qed

lemma validate_D:
  "validate_plan plan_D = [[Txt ''No cash for debt: expenses+savings >= salary'']]"
  by (simp add: validate_plan_def plan_D_def py_round_def)

subsection \<open>Scenario A, computed\<close>

lemma run_months_continue:
  assumes "month_step l m s = s'" and "0 < balance s'"
  shows "run_months l (m # ms) s = run_months l ms s'"
  using assms by (simp add: Let_def)

lemma run_months_stop:
  assumes "month_step l m s = s'" and "balance s' \<le> 0"
  shows "run_months l (m # ms) s = (s', Some m)"
  using assms by (simp add: Let_def)

lemma locals_A:
  "engine_locals scenario_A Map.empty =
     \<lparr>l_salary = 12000, l_fixed_expenses = 7500, l_savings_amount = 1200,
      l_regular_payment = 3300, l_monthly_rate = 0.025,
      l_one_time_by_month = Map.empty\<rparr>"
  by (simp add: engine_locals_def scenario_A_def py_round_def)

lemma start_A:
  "engine_start scenario_A =
     \<lparr>balance = 20000, total_interest = 0, total_saved = 0,
      total_regular = 0, total_one_time = 0, rows = []\<rparr>"
  by (simp add: engine_start_def scenario_A_def py_round_def)

lemma step_A_1:
  "month_step (engine_locals scenario_A Map.empty) 1
     \<lparr>balance = 20000, total_interest = 0, total_saved = 0,
      total_regular = 0, total_one_time = 0, rows = []\<rparr> =
     \<lparr>balance = 17200, total_interest = 500, total_saved = 1200,
      total_regular = 3300, total_one_time = 0, rows = take 1 rows_A\<rparr>"
  unfolding locals_A
  by (simp add: month_step_def early_payoff_def py_round_def rows_A_def Let_def floor_rat)

lemma step_A_2:
  "month_step (engine_locals scenario_A Map.empty) 2
     \<lparr>balance = 17200, total_interest = 500, total_saved = 1200,
      total_regular = 3300, total_one_time = 0, rows = take 1 rows_A\<rparr> =
     \<lparr>balance = 14330, total_interest = 930, total_saved = 2400,
      total_regular = 6600, total_one_time = 0, rows = take 2 rows_A\<rparr>"
  unfolding locals_A
  by (simp add: month_step_def early_payoff_def py_round_def rows_A_def Let_def floor_rat)

lemma step_A_3:
  "month_step (engine_locals scenario_A Map.empty) 3
     \<lparr>balance = 14330, total_interest = 930, total_saved = 2400,
      total_regular = 6600, total_one_time = 0, rows = take 2 rows_A\<rparr> =
     \<lparr>balance = 11388.25, total_interest = 1288.25, total_saved = 3600,
      total_regular = 9900, total_one_time = 0, rows = take 3 rows_A\<rparr>"
  unfolding locals_A
  by (simp add: month_step_def early_payoff_def py_round_def rows_A_def Let_def floor_rat)

lemma step_A_4:
  "month_step (engine_locals scenario_A Map.empty) 4
     \<lparr>balance = 11388.25, total_interest = 1288.25, total_saved = 3600,
      total_regular = 9900, total_one_time = 0, rows = take 3 rows_A\<rparr> =
     \<lparr>balance = 8372.96, total_interest = 1572.96, total_saved = 4800,
      total_regular = 13200, total_one_time = 0, rows = take 4 rows_A\<rparr>"
  unfolding locals_A
  by (simp add: month_step_def early_payoff_def py_round_def rows_A_def Let_def floor_rat)

lemma step_A_5:
  "month_step (engine_locals scenario_A Map.empty) 5
     \<lparr>balance = 8372.96, total_interest = 1572.96, total_saved = 4800,
      total_regular = 13200, total_one_time = 0, rows = take 4 rows_A\<rparr> =
     \<lparr>balance = 5282.28, total_interest = 1782.28, total_saved = 6000,
      total_regular = 16500, total_one_time = 0, rows = take 5 rows_A\<rparr>"
  unfolding locals_A
  by (simp add: month_step_def early_payoff_def py_round_def rows_A_def Let_def floor_rat)

lemma step_A_6:
  "month_step (engine_locals scenario_A Map.empty) 6
     \<lparr>balance = 5282.28, total_interest = 1782.28, total_saved = 6000,
      total_regular = 16500, total_one_time = 0, rows = take 5 rows_A\<rparr> =
     \<lparr>balance = 2114.34, total_interest = 1914.34, total_saved = 7200,
      total_regular = 19800, total_one_time = 0, rows = take 6 rows_A\<rparr>"
  unfolding locals_A
  by (simp add: month_step_def early_payoff_def py_round_def rows_A_def Let_def floor_rat)

lemma run_A:
  "run_months (engine_locals scenario_A Map.empty) [1..param_months scenario_A]
     (engine_start scenario_A) =
     (\<lparr>balance = 2114.34, total_interest = 1914.34, total_saved = 7200,
       total_regular = 19800, total_one_time = 0, rows = take 6 rows_A\<rparr>, None)"
proof -
  have "[1..param_months scenario_A] = [1, 2, 3, 4, 5, 6]"
    by (simp add: scenario_A_def upto_rec1)
  moreover have "run_months (engine_locals scenario_A Map.empty) [1, 2, 3, 4, 5, 6]
      \<lparr>balance = 20000, total_interest = 0, total_saved = 0,
      total_regular = 0, total_one_time = 0, rows = []\<rparr> =
    run_months (engine_locals scenario_A Map.empty) [2, 3, 4, 5, 6]
      \<lparr>balance = 17200, total_interest = 500, total_saved = 1200,
       total_regular = 3300, total_one_time = 0, rows = take 1 rows_A\<rparr>"
    by (rule run_months_continue [OF step_A_1]) simp
  moreover have "run_months (engine_locals scenario_A Map.empty) [2, 3, 4, 5, 6]
      \<lparr>balance = 17200, total_interest = 500, total_saved = 1200,
       total_regular = 3300, total_one_time = 0, rows = take 1 rows_A\<rparr> =
    run_months (engine_locals scenario_A Map.empty) [3, 4, 5, 6]
      \<lparr>balance = 14330, total_interest = 930, total_saved = 2400,
       total_regular = 6600, total_one_time = 0, rows = take 2 rows_A\<rparr>"
    by (rule run_months_continue [OF step_A_2]) simp
  moreover have "run_months (engine_locals scenario_A Map.empty) [3, 4, 5, 6]
      \<lparr>balance = 14330, total_interest = 930, total_saved = 2400,
       total_regular = 6600, total_one_time = 0, rows = take 2 rows_A\<rparr> =
    run_months (engine_locals scenario_A Map.empty) [4, 5, 6]
      \<lparr>balance = 11388.25, total_interest = 1288.25, total_saved = 3600,
       total_regular = 9900, total_one_time = 0, rows = take 3 rows_A\<rparr>"
    by (rule run_months_continue [OF step_A_3]) simp
  moreover have "run_months (engine_locals scenario_A Map.empty) [4, 5, 6]
      \<lparr>balance = 11388.25, total_interest = 1288.25, total_saved = 3600,
       total_regular = 9900, total_one_time = 0, rows = take 3 rows_A\<rparr> =
    run_months (engine_locals scenario_A Map.empty) [5, 6]
      \<lparr>balance = 8372.96, total_interest = 1572.96, total_saved = 4800,
       total_regular = 13200, total_one_time = 0, rows = take 4 rows_A\<rparr>"
    by (rule run_months_continue [OF step_A_4]) simp
  moreover have "run_months (engine_locals scenario_A Map.empty) [5, 6]
      \<lparr>balance = 8372.96, total_interest = 1572.96, total_saved = 4800,
       total_regular = 13200, total_one_time = 0, rows = take 4 rows_A\<rparr> =
    run_months (engine_locals scenario_A Map.empty) [6]
      \<lparr>balance = 5282.28, total_interest = 1782.28, total_saved = 6000,
       total_regular = 16500, total_one_time = 0, rows = take 5 rows_A\<rparr>"
    by (rule run_months_continue [OF step_A_5]) simp
  moreover have "run_months (engine_locals scenario_A Map.empty) [6]
      \<lparr>balance = 5282.28, total_interest = 1782.28, total_saved = 6000,
       total_regular = 16500, total_one_time = 0, rows = take 5 rows_A\<rparr> =
    run_months (engine_locals scenario_A Map.empty) []
      \<lparr>balance = 2114.34, total_interest = 1914.34, total_saved = 7200,
       total_regular = 19800, total_one_time = 0, rows = take 6 rows_A\<rparr>"
    by (rule run_months_continue [OF step_A_6]) simp
  ultimately show ?thesis
    by (simp add: start_A)
qed

lemma calculate_A:
  "calculate_debt_payoff_plan today scenario_A = Inr (plan_A today)"
proof -
  have parse: "parse_one_time_payments (raw_payments scenario_A) [] Map.empty = Inr ([], Map.empty)"
    by (simp add: raw_payments_def scenario_A_def)
  have solver: "calc_required_payment (balance (engine_start scenario_A))
      (l_monthly_rate (engine_locals scenario_A Map.empty)) (param_months scenario_A)
      (sum_list (map amount [])) = Inr 3631"
    unfolding locals_A start_A
    by (simp add: scenario_A_def calc_required_payment_def py_round_def power_int_minus
        power_divide Let_def floor_rat)
  show ?thesis
    unfolding calculate_not_cleared [OF parse run_A solver] locals_A start_A
    by (simp add: new_FinanceDebtPlan_def plan_A_def scenario_A_def py_round_def rows_A_def)
qed

subsection \<open>Scenario B, computed: an early payoff in month 2\<close>

lemma parse_B:
  "parse_one_time_payments (raw_payments scenario_B) [] Map.empty =
     Inr (payments_B, [2 \<mapsto> 1000, 2 \<mapsto> 3000])"
  by (simp add: raw_payments_def scenario_B_def payments_B_def new_OneTimePayment_def
      py_round_def)

lemma locals_B:
  "engine_locals scenario_B [2 \<mapsto> 1000, 2 \<mapsto> 3000] =
     \<lparr>l_salary = 12000, l_fixed_expenses = 7500, l_savings_amount = 1200,
      l_regular_payment = 3300, l_monthly_rate = 1 / 40,
      l_one_time_by_month = [2 \<mapsto> 1000, 2 \<mapsto> 3000]\<rparr>"
  by (simp add: engine_locals_def scenario_B_def py_round_def)

lemma start_B:
  "engine_start scenario_B =
     \<lparr>balance = 6000, total_interest = 0, total_saved = 0,
      total_regular = 0, total_one_time = 0, rows = []\<rparr>"
  by (simp add: engine_start_def scenario_B_def py_round_def)

lemma step_B_1:
  "month_step (engine_locals scenario_B [2 \<mapsto> 1000, 2 \<mapsto> 3000]) 1
     \<lparr>balance = 6000, total_interest = 0, total_saved = 0,
      total_regular = 0, total_one_time = 0, rows = []\<rparr> =
     \<lparr>balance = 2850, total_interest = 150, total_saved = 1200,
      total_regular = 3300, total_one_time = 0, rows = take 1 rows_B\<rparr>"
  unfolding locals_B
  by (simp add: month_step_def early_payoff_def py_round_def rows_B_def Let_def floor_rat)

lemma step_B_2:
  "month_step (engine_locals scenario_B [2 \<mapsto> 1000, 2 \<mapsto> 3000]) 2
     \<lparr>balance = 2850, total_interest = 150, total_saved = 1200,
      total_regular = 3300, total_one_time = 0, rows = take 1 rows_B\<rparr> =
     \<lparr>balance = 0, total_interest = 221.25, total_saved = 2400,
      total_regular = 6221.25, total_one_time = 0, rows = take 2 rows_B\<rparr>"
  unfolding locals_B
  by (simp add: month_step_def early_payoff_def py_round_def rows_B_def Let_def floor_rat)

lemma run_B:
  "run_months (engine_locals scenario_B [2 \<mapsto> 1000, 2 \<mapsto> 3000]) [1..param_months scenario_B]
     (engine_start scenario_B) =
     (\<lparr>balance = 0, total_interest = 221.25, total_saved = 2400,
       total_regular = 6221.25, total_one_time = 0, rows = take 2 rows_B\<rparr>, Some 2)"
proof -
  have "[1..param_months scenario_B] = [1, 2, 3, 4, 5, 6]"
    by (simp add: scenario_B_def upto_rec1)
  moreover have "run_months (engine_locals scenario_B [2 \<mapsto> 1000, 2 \<mapsto> 3000]) [1, 2, 3, 4, 5, 6]
      \<lparr>balance = 6000, total_interest = 0, total_saved = 0,
       total_regular = 0, total_one_time = 0, rows = []\<rparr> =
    run_months (engine_locals scenario_B [2 \<mapsto> 1000, 2 \<mapsto> 3000]) [2, 3, 4, 5, 6]
      \<lparr>balance = 2850, total_interest = 150, total_saved = 1200,
       total_regular = 3300, total_one_time = 0, rows = take 1 rows_B\<rparr>"
    by (rule run_months_continue [OF step_B_1]) simp
  moreover have "run_months (engine_locals scenario_B [2 \<mapsto> 1000, 2 \<mapsto> 3000]) [2, 3, 4, 5, 6]
      \<lparr>balance = 2850, total_interest = 150, total_saved = 1200,
       total_regular = 3300, total_one_time = 0, rows = take 1 rows_B\<rparr> =
    (\<lparr>balance = 0, total_interest = 221.25, total_saved = 2400,
       total_regular = 6221.25, total_one_time = 0, rows = take 2 rows_B\<rparr>, Some 2)"
    by (rule run_months_stop [OF step_B_2]) simp
  ultimately show ?thesis
    by (simp add: start_B)
qed

lemma calculate_B:
  "calculate_debt_payoff_plan today scenario_B = Inr (plan_B today)"
  unfolding calculate_cleared [OF parse_B run_B] locals_B start_B
  by (simp add: new_FinanceDebtPlan_def plan_B_def scenario_B_def py_round_def rows_B_def)

subsection \<open>Scenario C, computed: two one-time payments in month 3, debt not cleared\<close>

lemma parse_C:
  "parse_one_time_payments (raw_payments scenario_C) [] Map.empty =
     Inr (payments_C, [3 \<mapsto> 1000, 3 \<mapsto> 2000])"
  by (simp add: raw_payments_def scenario_C_def payments_C_def new_OneTimePayment_def
      py_round_def)

lemma locals_C:
  "engine_locals scenario_C [3 \<mapsto> 1000, 3 \<mapsto> 2000] =
     \<lparr>l_salary = 12000, l_fixed_expenses = 7500, l_savings_amount = 1200,
      l_regular_payment = 3300, l_monthly_rate = 1 / 40,
      l_one_time_by_month = [3 \<mapsto> 1000, 3 \<mapsto> 2000]\<rparr>"
  by (simp add: engine_locals_def scenario_C_def py_round_def)

lemma start_C:
  "engine_start scenario_C =
     \<lparr>balance = 30000, total_interest = 0, total_saved = 0,
      total_regular = 0, total_one_time = 0, rows = []\<rparr>"
  by (simp add: engine_start_def scenario_C_def py_round_def)

lemma step_C_1:
  "month_step (engine_locals scenario_C [3 \<mapsto> 1000, 3 \<mapsto> 2000]) 1
     \<lparr>balance = 30000, total_interest = 0, total_saved = 0,
      total_regular = 0, total_one_time = 0, rows = []\<rparr> =
     \<lparr>balance = 27450, total_interest = 750, total_saved = 1200,
      total_regular = 3300, total_one_time = 0, rows = take 1 rows_C\<rparr>"
  unfolding locals_C
  by (simp add: month_step_def early_payoff_def py_round_def rows_C_def Let_def floor_rat)

lemma step_C_2:
  "month_step (engine_locals scenario_C [3 \<mapsto> 1000, 3 \<mapsto> 2000]) 2
     \<lparr>balance = 27450, total_interest = 750, total_saved = 1200,
      total_regular = 3300, total_one_time = 0, rows = take 1 rows_C\<rparr> =
     \<lparr>balance = 24836.25, total_interest = 1436.25, total_saved = 2400,
      total_regular = 6600, total_one_time = 0, rows = take 2 rows_C\<rparr>"
  unfolding locals_C
  by (simp add: month_step_def early_payoff_def py_round_def rows_C_def Let_def floor_rat)

lemma step_C_3:
  "month_step (engine_locals scenario_C [3 \<mapsto> 1000, 3 \<mapsto> 2000]) 3
     \<lparr>balance = 24836.25, total_interest = 1436.25, total_saved = 2400,
      total_regular = 6600, total_one_time = 0, rows = take 2 rows_C\<rparr> =
     \<lparr>balance = 20157.16, total_interest = 2057.16, total_saved = 3600,
      total_regular = 9900, total_one_time = 2000, rows = take 3 rows_C\<rparr>"
  unfolding locals_C
  by (simp add: month_step_def early_payoff_def py_round_def rows_C_def Let_def floor_rat)

lemma step_C_4:
  "month_step (engine_locals scenario_C [3 \<mapsto> 1000, 3 \<mapsto> 2000]) 4
     \<lparr>balance = 20157.16, total_interest = 2057.16, total_saved = 3600,
      total_regular = 9900, total_one_time = 2000, rows = take 3 rows_C\<rparr> =
     \<lparr>balance = 17361.09, total_interest = 2561.09, total_saved = 4800,
      total_regular = 13200, total_one_time = 2000, rows = take 4 rows_C\<rparr>"
  unfolding locals_C
  by (simp add: month_step_def early_payoff_def py_round_def rows_C_def Let_def floor_rat)

lemma step_C_5:
  "month_step (engine_locals scenario_C [3 \<mapsto> 1000, 3 \<mapsto> 2000]) 5
     \<lparr>balance = 17361.09, total_interest = 2561.09, total_saved = 4800,
      total_regular = 13200, total_one_time = 2000, rows = take 4 rows_C\<rparr> =
     \<lparr>balance = 14495.12, total_interest = 2995.12, total_saved = 6000,
      total_regular = 16500, total_one_time = 2000, rows = take 5 rows_C\<rparr>"
  unfolding locals_C
  by (simp add: month_step_def early_payoff_def py_round_def rows_C_def Let_def floor_rat)

lemma step_C_6:
  "month_step (engine_locals scenario_C [3 \<mapsto> 1000, 3 \<mapsto> 2000]) 6
     \<lparr>balance = 14495.12, total_interest = 2995.12, total_saved = 6000,
      total_regular = 16500, total_one_time = 2000, rows = take 5 rows_C\<rparr> =
     \<lparr>balance = 11557.50, total_interest = 3357.50, total_saved = 7200,
      total_regular = 19800, total_one_time = 2000, rows = take 6 rows_C\<rparr>"
  unfolding locals_C
  by (simp add: month_step_def early_payoff_def py_round_def rows_C_def Let_def floor_rat)

lemma run_C:
  "run_months (engine_locals scenario_C [3 \<mapsto> 1000, 3 \<mapsto> 2000]) [1..param_months scenario_C]
     (engine_start scenario_C) =
     (\<lparr>balance = 11557.50, total_interest = 3357.50, total_saved = 7200,
       total_regular = 19800, total_one_time = 2000, rows = take 6 rows_C\<rparr>, None)"
proof -
  have "[1..param_months scenario_C] = [1, 2, 3, 4, 5, 6]"
    by (simp add: scenario_C_def upto_rec1)
  moreover have "run_months (engine_locals scenario_C [3 \<mapsto> 1000, 3 \<mapsto> 2000]) [1, 2, 3, 4, 5, 6]
      \<lparr>balance = 30000, total_interest = 0, total_saved = 0,
       total_regular = 0, total_one_time = 0, rows = []\<rparr> =
    run_months (engine_locals scenario_C [3 \<mapsto> 1000, 3 \<mapsto> 2000]) [2, 3, 4, 5, 6]
      \<lparr>balance = 27450, total_interest = 750, total_saved = 1200,
       total_regular = 3300, total_one_time = 0, rows = take 1 rows_C\<rparr>"
    by (rule run_months_continue [OF step_C_1]) simp
  moreover have "run_months (engine_locals scenario_C [3 \<mapsto> 1000, 3 \<mapsto> 2000]) [2, 3, 4, 5, 6]
      \<lparr>balance = 27450, total_interest = 750, total_saved = 1200,
       total_regular = 3300, total_one_time = 0, rows = take 1 rows_C\<rparr> =
    run_months (engine_locals scenario_C [3 \<mapsto> 1000, 3 \<mapsto> 2000]) [3, 4, 5, 6]
      \<lparr>balance = 24836.25, total_interest = 1436.25, total_saved = 2400,
       total_regular = 6600, total_one_time = 0, rows = take 2 rows_C\<rparr>"
    by (rule run_months_continue [OF step_C_2]) simp
  moreover have "run_months (engine_locals scenario_C [3 \<mapsto> 1000, 3 \<mapsto> 2000]) [3, 4, 5, 6]
      \<lparr>balance = 24836.25, total_interest = 1436.25, total_saved = 2400,
       total_regular = 6600, total_one_time = 0, rows = take 2 rows_C\<rparr> =
    run_months (engine_locals scenario_C [3 \<mapsto> 1000, 3 \<mapsto> 2000]) [4, 5, 6]
      \<lparr>balance = 20157.16, total_interest = 2057.16, total_saved = 3600,
       total_regular = 9900, total_one_time = 2000, rows = take 3 rows_C\<rparr>"
    by (rule run_months_continue [OF step_C_3]) simp
  moreover have "run_months (engine_locals scenario_C [3 \<mapsto> 1000, 3 \<mapsto> 2000]) [4, 5, 6]
      \<lparr>balance = 20157.16, total_interest = 2057.16, total_saved = 3600,
       total_regular = 9900, total_one_time = 2000, rows = take 3 rows_C\<rparr> =
    run_months (engine_locals scenario_C [3 \<mapsto> 1000, 3 \<mapsto> 2000]) [5, 6]
      \<lparr>balance = 17361.09, total_interest = 2561.09, total_saved = 4800,
       total_regular = 13200, total_one_time = 2000, rows = take 4 rows_C\<rparr>"
    by (rule run_months_continue [OF step_C_4]) simp
  moreover have "run_months (engine_locals scenario_C [3 \<mapsto> 1000, 3 \<mapsto> 2000]) [5, 6]
      \<lparr>balance = 17361.09, total_interest = 2561.09, total_saved = 4800,
       total_regular = 13200, total_one_time = 2000, rows = take 4 rows_C\<rparr> =
    run_months (engine_locals scenario_C [3 \<mapsto> 1000, 3 \<mapsto> 2000]) [6]
      \<lparr>balance = 14495.12, total_interest = 2995.12, total_saved = 6000,
       total_regular = 16500, total_one_time = 2000, rows = take 5 rows_C\<rparr>"
    by (rule run_months_continue [OF step_C_5]) simp
  moreover have "run_months (engine_locals scenario_C [3 \<mapsto> 1000, 3 \<mapsto> 2000]) [6]
      \<lparr>balance = 14495.12, total_interest = 2995.12, total_saved = 6000,
       total_regular = 16500, total_one_time = 2000, rows = take 5 rows_C\<rparr> =
    run_months (engine_locals scenario_C [3 \<mapsto> 1000, 3 \<mapsto> 2000]) []
      \<lparr>balance = 11557.50, total_interest = 3357.50, total_saved = 7200,
       total_regular = 19800, total_one_time = 2000, rows = take 6 rows_C\<rparr>"
    by (rule run_months_continue [OF step_C_6]) simp
  ultimately show ?thesis
    by (simp add: start_C)
qed

lemma calculate_C:
  "calculate_debt_payoff_plan today scenario_C = Inr (plan_C today)"
proof -
  have solver: "calc_required_payment (balance (engine_start scenario_C))
      (l_monthly_rate (engine_locals scenario_C [3 \<mapsto> 1000, 3 \<mapsto> 2000])) (param_months scenario_C)
      (sum_list (map amount payments_C)) = Inr (4901.85)"
    unfolding locals_C start_C
    by (simp add: scenario_C_def payments_C_def calc_required_payment_def py_round_def
        power_int_minus power_divide Let_def floor_rat)
  show ?thesis
    unfolding calculate_not_cleared [OF parse_C run_C solver] locals_C start_C
    by (simp add: new_FinanceDebtPlan_def plan_C_def scenario_C_def py_round_def rows_C_def)
qed

subsection \<open>Amounts of whole cents\<close>

lemma is_cents_iff: "is_cents x \<longleftrightarrow> (\<exists>k::int. x * 100 = of_int k)"
  unfolding is_cents_def by (metis of_int_floor_cancel)

lemma is_cents_py_round [simp]: "is_cents (py_round x 2)"
  unfolding is_cents_iff py_round_def Let_def by simp

lemma py_round_cents [simp]:
  assumes "is_cents x"
  shows "py_round x 2 = x"
proof -
  from assms obtain k :: int where k: "x * 100 = of_int k"
    unfolding is_cents_iff ..
  then have "x * 10 ^ 2 = of_int k"
    by simp
  then have "py_round x 2 = of_int k / 100"
    unfolding py_round_def Let_def by simp
  also have "\<dots> = x"
    using k by simp
  finally show ?thesis .
qed

lemma is_cents_0 [simp]: "is_cents 0"
  by (simp add: is_cents_def)

lemma is_cents_add [simp]:
  assumes "is_cents x" and "is_cents y"
  shows "is_cents (x + y)"
proof -
  from assms obtain a b :: int where "x * 100 = of_int a" and "y * 100 = of_int b"
    unfolding is_cents_iff by blast
  then have "(x + y) * 100 = of_int (a + b)"
    by (simp add: distrib_right)
  then show ?thesis
    unfolding is_cents_iff ..
qed

lemma is_cents_minus [simp]:
  assumes "is_cents x"
  shows "is_cents (- x)"
proof -
  from assms obtain a :: int where "x * 100 = of_int a"
    unfolding is_cents_iff ..
  then have "(- x) * 100 = of_int (- a)"
    by simp
  then show ?thesis
    unfolding is_cents_iff ..
qed

lemma is_cents_diff [simp]: "is_cents x \<Longrightarrow> is_cents y \<Longrightarrow> is_cents (x - y)"
  using is_cents_add [of x "- y"] by simp

lemma is_cents_abs [simp]: "is_cents x \<Longrightarrow> is_cents \<bar>x\<bar>"
  by (simp add: abs_if)

lemma is_cents_min [simp]: "is_cents x \<Longrightarrow> is_cents y \<Longrightarrow> is_cents (min x y)"
  by (simp add: min_def)

subsection \<open>One month of the loop\<close>

lemma month_step_row:
  "month_step l m s =
     \<lparr>balance = remaining_balance (step_row l m (balance s)),
      total_interest = py_round (total_interest s + interest_charged (step_row l m (balance s))) 2,
      total_saved = py_round (total_saved s + l_savings_amount l) 2,
      total_regular = py_round (total_regular s + debt_payment (step_row l m (balance s))) 2,
      total_one_time = py_round (total_one_time s + one_time_payment (step_row l m (balance s))) 2,
      rows = rows s @ [step_row l m (balance s)]\<rparr>"
  by (simp add: month_step_def step_row_def Let_def split: prod.splits)


lemma step_row_payoff:
  "(debt_payment (step_row l m bal), one_time_payment (step_row l m bal),
    total_payment (step_row l m bal), remaining_balance (step_row l m bal)) =
   early_payoff bal (py_round (bal * l_monthly_rate l) 2) (l_regular_payment l)
     (nominal l m)
     (py_round (l_regular_payment l + nominal l m) 2)
     (py_round (bal + py_round (bal * l_monthly_rate l) 2
        - py_round (l_regular_payment l + nominal l m) 2) 2)"
  by (simp add: month_step_def step_row_def nominal_def Let_def split: prod.splits)

lemma early_payoff_nonneg:
  "early_payoff bal interest reg ot tt nb = (r', o', t', n') \<Longrightarrow> 0 \<le> n'"
  by (auto simp: early_payoff_def Let_def split: if_splits prod.splits)

lemma step_row_nonneg: "0 \<le> remaining_balance (step_row l m bal)"
  using early_payoff_nonneg [OF step_row_payoff [symmetric]] .

lemma early_payoff_unchanged:
  "\<not> nb < 0 \<Longrightarrow> early_payoff bal interest reg ot tt nb = (reg, ot, tt, nb)"
  by (simp add: early_payoff_def)





lemma rows_sim_after:
  "rows (sim_after l s k) =
     rows s @ map (\<lambda>i. step_row l (int (Suc i)) (balance (sim_after l s i))) [0..<k]"
  by (induction k) (simp_all add: month_step_row)

lemma balance_sim_after_Suc:
  "balance (sim_after l s (Suc k)) =
     remaining_balance (step_row l (int (Suc k)) (balance (sim_after l s k)))"
  by (simp add: month_step_row)

lemma balance_sim_after_nonneg: "0 < k \<Longrightarrow> 0 \<le> balance (sim_after l s k)"
  by (cases k) (simp_all add: month_step_row step_row_nonneg)

subsection \<open>The loop and the simulation without the stop\<close>

lemma run_months_from:
  assumes "run_months l [int j + 1..n] (sim_after l s0 j) = (s, c)"
  shows "\<exists>k. j \<le> k \<and> s = sim_after l s0 k
           \<and> (\<forall>i. j < i \<and> i < k \<longrightarrow> 0 < balance (sim_after l s0 i))
           \<and> (case c of
                 Some m \<Rightarrow> m = int k \<and> j < k \<and> int k \<le> n \<and> balance (sim_after l s0 k) \<le> 0
               | None \<Rightarrow> int k = max (int j) n \<and> (j < k \<longrightarrow> 0 < balance (sim_after l s0 k)))"
  using assms
proof (induction "nat (n - int j)" arbitrary: j)
  case 0
  then have "[int j + 1..n] = []"
    by simp
  with "0.prems" have "s = sim_after l s0 j" and "c = None"
    by simp_all
  moreover from 0 have "int j = max (int j) n"
    by simp
  ultimately show ?case
    by auto
next
  case (Suc d)
  then have le: "int j + 1 \<le> n"
    by linarith
  then have unfold: "[int j + 1..n] = (int j + 1) # [int (Suc j) + 1..n]"
    by (simp add: upto_rec1 add.commute)
  have step: "month_step l (int j + 1) (sim_after l s0 j) = sim_after l s0 (Suc j)"
    by (simp add: add.commute)
  show ?case
  proof (cases "balance (sim_after l s0 (Suc j)) \<le> 0")
    case True
    with Suc.prems have "s = sim_after l s0 (Suc j)" and "c = Some (int (Suc j))"
      unfolding unfold by (simp_all add: step Let_def add.commute)
    with True le show ?thesis
      by (intro exI [of _ "Suc j"]) (auto simp: less_Suc_eq)
  next
    case False
    with Suc.prems have run: "run_months l [int (Suc j) + 1..n] (sim_after l s0 (Suc j)) = (s, c)"
      unfolding unfold by (simp add: step Let_def)
    from Suc.hyps(2) have "d = nat (n - int (Suc j))"
      by linarith
    from Suc.hyps(1) [OF this run] obtain k where k: "Suc j \<le> k" "s = sim_after l s0 k"
      "\<forall>i. Suc j < i \<and> i < k \<longrightarrow> 0 < balance (sim_after l s0 i)"
      "case c of
         Some m \<Rightarrow> m = int k \<and> Suc j < k \<and> int k \<le> n \<and> balance (sim_after l s0 k) \<le> 0
       | None \<Rightarrow> int k = max (int (Suc j)) n \<and> (Suc j < k \<longrightarrow> 0 < balance (sim_after l s0 k))"
      by blast
    have pos: "\<forall>i. j < i \<and> i < k \<longrightarrow> 0 < balance (sim_after l s0 i)"
    proof (intro allI impI)
      fix i assume "j < i \<and> i < k"
      then have "i = Suc j \<or> (Suc j < i \<and> i < k)"
        by linarith
      with False k(3) show "0 < balance (sim_after l s0 i)"
        by auto
    qed
    have "case c of
         Some m \<Rightarrow> m = int k \<and> j < k \<and> int k \<le> n \<and> balance (sim_after l s0 k) \<le> 0
       | None \<Rightarrow> int k = max (int j) n \<and> (j < k \<longrightarrow> 0 < balance (sim_after l s0 k))"
    proof (cases c)
      case None
      with k(4) have "int k = max (int (Suc j)) n"
        and later: "Suc j < k \<longrightarrow> 0 < balance (sim_after l s0 k)"
        by simp_all
      with le have "int k = max (int j) n"
        by simp
      moreover have "0 < balance (sim_after l s0 k)"
      proof (cases "k = Suc j")
        case True
        with False show ?thesis by simp
      next
        case False
        with k(1) later show ?thesis by simp
      qed
      ultimately show ?thesis
        using None by simp
    next
      case (Some m)
      with k(4) show ?thesis
        by simp
    qed
    with k(1,2) pos show ?thesis
      by (intro exI [of _ k]) simp
  qed
qed

subsection \<open>The one-time payments\<close>

lemma parse_one_time_payments_eq:
  "parse_one_time_payments xs payments by_month =
     (if list_all (\<lambda>otp. 0 < month otp \<and> 0 < amount otp) (accepted xs)
      then Inr (payments @ accepted xs, written (accepted xs) by_month)
      else Inl ValidationError)"
  by (induction xs arbitrary: payments by_month rule: accepted.induct)
    (simp_all add: new_OneTimePayment_def written_def Let_def)

lemma written_lookup:
  "written payments by_month m =
     (case find (\<lambda>otp. month otp = m) (rev payments) of
        None \<Rightarrow> by_month m
      | Some otp \<Rightarrow> Some (amount otp))"
  by (induction payments rule: rev_induct) (simp_all add: written_def)





subsection \<open>What a returned plan tells\<close>

lemma calculate_solver_raises:
  assumes "parse_one_time_payments (raw_payments p) [] Map.empty = Inr (payments, by_month)"
    and "run_months (engine_locals p by_month) [1..param_months p] (engine_start p) = (s, None)"
    and "calc_required_payment (balance (engine_start p))
           (l_monthly_rate (engine_locals p by_month)) (param_months p)
           (sum_list (map amount payments)) = Inl e"
  shows "calculate_debt_payoff_plan today p = Inl e"
  using assms
  by (simp add: calculate_debt_payoff_plan_def engine_locals_def engine_start_def
      raw_payments_def Let_def)

lemma calculate_parse_raises:
  assumes "parse_one_time_payments (raw_payments p) [] Map.empty = Inl e"
  shows "calculate_debt_payoff_plan today p = Inl e"
  using assms
  by (simp add: calculate_debt_payoff_plan_def raw_payments_def Let_def)

lemma new_FinanceDebtPlan_Inr:
  "new_FinanceDebtPlan x = Inr plan \<longleftrightarrow>
     plan = x \<and> 0 < salary x \<and> 0 < fixed_expenses x \<and> 0 < initial_debt x
       \<and> 0 \<le> monthly_interest_rate x \<and> monthly_interest_rate x \<le> 1 \<and> 0 < months x
       \<and> 0 \<le> savings_rate x \<and> savings_rate x \<le> 1"
  by (auto simp: new_FinanceDebtPlan_def)

lemma calculate_Inr:
  assumes "calculate_debt_payoff_plan today p = Inr plan"
  obtains s c where
    "run_months (plan_locals p) [1..param_months p] (engine_start p) = (s, c)"
    "valid_params p"
    "monthly_rows plan = rows s"
    "total_interest_paid plan = total_interest s"
    "total_regular_payments plan = total_regular s"
    "total_one_time_payments plan = total_one_time s"
    "final_balance plan = (case c of None \<Rightarrow> balance s | Some m \<Rightarrow> 0)"
    "is_debt_cleared plan = (c \<noteq> None)"
    "months_to_payoff plan = c"
    "one_time_payments plan = accepted (raw_payments p)"
    "initial_debt plan = balance (engine_start p)"
    "salary plan = l_salary (plan_locals p)"
    "fixed_expenses plan = l_fixed_expenses (plan_locals p)"
    "monthly_interest_rate plan = l_monthly_rate (plan_locals p)"
    "months plan = param_months p"
    "savings_rate plan =
       py_round ((case param_savings_rate_percent p of None \<Rightarrow> 10 | Some v \<Rightarrow> v) / 100) 4"
    "case c of
       None \<Rightarrow> (\<exists>r. recommended_payment plan = Some r
                 \<and> calc_required_payment (initial_debt plan) (monthly_interest_rate plan)
                     (months plan) (sum_list (map amount (one_time_payments plan))) = Inr r)
     | Some m \<Rightarrow> recommended_payment plan = None"
    "\<not> is_debt_cleared plan \<longrightarrow>
       (\<exists>r. recommended_payment plan = Some r
          \<and> calc_required_payment (initial_debt plan) (monthly_interest_rate plan)
              (months plan) (sum_list (map amount (accepted (raw_payments p)))) = Inr r)"
proof -
  let ?ok = "list_all (\<lambda>otp. 0 < month otp \<and> 0 < amount otp) (accepted (raw_payments p))"
  let ?by_month = "written (accepted (raw_payments p)) Map.empty"
  have ok: ?ok
  proof (rule ccontr)
    assume "\<not> ?ok"
    then have "parse_one_time_payments (raw_payments p) [] Map.empty = Inl ValidationError"
      by (simp add: parse_one_time_payments_eq)
    from calculate_parse_raises [OF this] assms show False
      by simp
  qed
  then have parse: "parse_one_time_payments (raw_payments p) [] Map.empty =
      Inr (accepted (raw_payments p), ?by_month)"
    by (simp add: parse_one_time_payments_eq)
  obtain s c where run: "run_months (engine_locals p ?by_month) [1..param_months p]
      (engine_start p) = (s, c)"
    by (cases "run_months (engine_locals p ?by_month) [1..param_months p] (engine_start p)")
  then have run': "run_months (plan_locals p) [1..param_months p] (engine_start p) = (s, c)"
    by (simp add: plan_locals_def)
  show thesis
  proof (cases c)
    case (Some m)
    note made = assms [unfolded calculate_cleared [OF parse run [unfolded Some]]
        new_FinanceDebtPlan_Inr]
    show ?thesis
      by (rule that [OF run'])
        (insert made ok, simp_all add: valid_params_def plan_locals_def engine_locals_def
          engine_start_def Some)
  next
    case None
    show ?thesis
    proof (cases "calc_required_payment (balance (engine_start p))
           (l_monthly_rate (engine_locals p ?by_month)) (param_months p)
           (sum_list (map amount (accepted (raw_payments p))))")
      case (Inl e)
      from calculate_solver_raises [OF parse run [unfolded None] Inl] assms show ?thesis
        by simp
    next
      case (Inr r)
      note made = assms [unfolded calculate_not_cleared [OF parse run [unfolded None] Inr]
          new_FinanceDebtPlan_Inr]
      show ?thesis
        by (rule that [OF run'])
          (insert made ok Inr, simp_all add: valid_params_def plan_locals_def engine_locals_def
            engine_start_def None)
    qed
  qed
qed

lemma discount_factor_less_one:
  fixes rate :: rat
  assumes "0 < rate" and "0 < n"
  shows "power_int (1 + rate) (- n) < 1"
proof -
  have base: "1 < 1 + rate"
    using assms(1) by simp
  have "1 < power_int (1 + rate) n"
    using base assms(2) by (rule one_less_power_int)
  then have "inverse (power_int (1 + rate) n) < 1"
    by (simp add: inverse_less_1_iff)
  then show ?thesis
    by (simp add: power_int_minus)
qed

lemma calc_required_payment_defined:
  assumes "0 \<le> rate" and "0 < n"
  shows "\<exists>r. calc_required_payment debt rate n bonus = Inr r"
proof (cases "rate = 0")
  case True
  with assms(2) show ?thesis
    by (simp add: calc_required_payment_def)
next
  case False
  with assms(1) have pos: "0 < rate"
    by simp
  from discount_factor_less_one [OF pos assms(2)]
  have "1 - power_int (1 + rate) (- n) \<noteq> 0"
    by simp
  with pos show ?thesis
    by (simp add: calc_required_payment_def Let_def)
qed

lemma calculate_total:
  assumes "valid_params p"
  shows "\<exists>plan. calculate_debt_payoff_plan today p = Inr plan"
proof -
  let ?by_month = "written (accepted (raw_payments p)) Map.empty"
  from assms have parse: "parse_one_time_payments (raw_payments p) [] Map.empty =
      Inr (accepted (raw_payments p), ?by_month)"
    by (simp add: parse_one_time_payments_eq valid_params_def)
  obtain s c where run: "run_months (engine_locals p ?by_month) [1..param_months p]
      (engine_start p) = (s, c)"
    by (cases "run_months (engine_locals p ?by_month) [1..param_months p] (engine_start p)")
  show ?thesis
  proof (cases c)
    case (Some m)
    show ?thesis
      unfolding calculate_cleared [OF parse run [unfolded Some]] new_FinanceDebtPlan_Inr
      using assms by (simp add: valid_params_def engine_locals_def engine_start_def)
  next
    case None
    from assms have "0 \<le> l_monthly_rate (engine_locals p ?by_month)" and "0 < param_months p"
      by (simp_all add: valid_params_def engine_locals_def)
    from calc_required_payment_defined [OF this]
    obtain r where solver: "calc_required_payment (balance (engine_start p))
           (l_monthly_rate (engine_locals p ?by_month)) (param_months p)
           (sum_list (map amount (accepted (raw_payments p)))) = Inr r"
      by blast
    show ?thesis
      unfolding calculate_not_cleared [OF parse run [unfolded None] solver]
        new_FinanceDebtPlan_Inr
      using assms by (simp add: valid_params_def engine_locals_def engine_start_def)
  qed
qed

lemma calculate_trajectory:
  assumes "calculate_debt_payoff_plan today p = Inr plan"
  obtains k where
    "monthly_rows plan = rows (sim_after (plan_locals p) (engine_start p) k)"
    "total_interest_paid plan = total_interest (sim_after (plan_locals p) (engine_start p) k)"
    "total_regular_payments plan = total_regular (sim_after (plan_locals p) (engine_start p) k)"
    "total_one_time_payments plan = total_one_time (sim_after (plan_locals p) (engine_start p) k)"
    "\<forall>i. 0 < i \<and> i < k \<longrightarrow> 0 < simulated_balance p i"
    "0 < k" "int k \<le> param_months p"
    "is_debt_cleared plan \<longleftrightarrow> simulated_balance p k \<le> 0"
    "is_debt_cleared plan \<longrightarrow> months_to_payoff plan = Some (int k)"
    "is_debt_cleared plan \<longrightarrow> final_balance plan = 0"
    "\<not> is_debt_cleared plan \<longrightarrow> months_to_payoff plan = None"
    "\<not> is_debt_cleared plan \<longrightarrow> int k = param_months p"
    "\<not> is_debt_cleared plan \<longrightarrow> final_balance plan = simulated_balance p k"
    "\<not> is_debt_cleared plan \<longrightarrow> recommended_payment plan \<noteq> None"
proof -
  from calculate_Inr [OF assms] obtain s c where
    run: "run_months (plan_locals p) [1..param_months p] (engine_start p) = (s, c)"
    and valid: "valid_params p"
    and fields: "monthly_rows plan = rows s"
    "total_interest_paid plan = total_interest s"
    "total_regular_payments plan = total_regular s"
    "total_one_time_payments plan = total_one_time s"
    "final_balance plan = (case c of None \<Rightarrow> balance s | Some m \<Rightarrow> 0)"
    "is_debt_cleared plan = (c \<noteq> None)"
    "months_to_payoff plan = c"
    and solver: "case c of
       None \<Rightarrow> (\<exists>r. recommended_payment plan = Some r
                 \<and> calc_required_payment (initial_debt plan) (monthly_interest_rate plan)
                     (months plan) (sum_list (map amount (one_time_payments plan))) = Inr r)
     | Some m \<Rightarrow> recommended_payment plan = None"
    by blast
  from valid have months: "0 < param_months p"
    by (simp add: valid_params_def)
  have "run_months (plan_locals p) [int 0 + 1..param_months p]
      (sim_after (plan_locals p) (engine_start p) 0) = (s, c)"
    using run by simp
  from run_months_from [OF this] obtain k where
    s: "s = sim_after (plan_locals p) (engine_start p) k"
    and before: "\<forall>i. 0 < i \<and> i < k \<longrightarrow> 0 < balance (sim_after (plan_locals p) (engine_start p) i)"
    and at: "case c of
        Some m \<Rightarrow> m = int k \<and> 0 < k \<and> int k \<le> param_months p
          \<and> balance (sim_after (plan_locals p) (engine_start p) k) \<le> 0
      | None \<Rightarrow> int k = max (int 0) (param_months p)
          \<and> (0 < k \<longrightarrow> 0 < balance (sim_after (plan_locals p) (engine_start p) k))"
    by blast
  show thesis
  proof (cases c)
    case None
    with at months have "int k = param_months p" and "0 < k"
      by simp_all
    with at None have "0 < simulated_balance p k"
      by (simp add: simulated_balance_def)
    with \<open>int k = param_months p\<close> \<open>0 < k\<close> None fields solver before show ?thesis
      by (intro that [of k]) (auto simp: s simulated_balance_def)
  next
    case (Some m)
    with at fields solver before show ?thesis
      by (intro that [of k]) (auto simp: s simulated_balance_def)
  qed
qed

lemma calculate_valid:
  assumes "calculate_debt_payoff_plan today p = Inr plan"
  shows "valid_params p"
  by (rule calculate_Inr [OF assms])

lemma calculate_initial_debt:
  assumes "calculate_debt_payoff_plan today p = Inr plan"
  shows "initial_debt plan = balance (engine_start p)"
  by (rule calculate_Inr [OF assms])

lemma rows_engine_start [simp]: "rows (engine_start p) = []"
  by (simp add: engine_start_def)


lemma plan_regular_eq:
  assumes "calculate_debt_payoff_plan today p = Inr plan"
  shows "plan_regular plan = l_regular_payment (plan_locals p)"
proof -
  have "salary plan = l_salary (plan_locals p)"
    by (rule calculate_Inr [OF assms])
  moreover have "fixed_expenses plan = l_fixed_expenses (plan_locals p)"
    by (rule calculate_Inr [OF assms])
  moreover have "savings_rate plan =
       py_round ((case param_savings_rate_percent p of None \<Rightarrow> 10 | Some v \<Rightarrow> v) / 100) 4"
    by (rule calculate_Inr [OF assms])
  ultimately show ?thesis
    by (simp add: plan_regular_def plan_locals_def engine_locals_def)
qed

lemma plan_rate_eq:
  assumes "calculate_debt_payoff_plan today p = Inr plan"
  shows "monthly_interest_rate plan = l_monthly_rate (plan_locals p)"
  by (rule calculate_Inr [OF assms])

lemma plan_one_time_eq:
  assumes "calculate_debt_payoff_plan today p = Inr plan"
  shows "plan_one_time plan m = nominal (plan_locals p) m"
proof -
  have "one_time_payments plan = accepted (raw_payments p)"
    by (rule calculate_Inr [OF assms])
  then show ?thesis
    by (simp add: plan_one_time_def nominal_def plan_locals_def engine_locals_def
        written_lookup split: option.splits)
qed

lemma plan_rows:
  assumes "calculate_debt_payoff_plan today p = Inr plan"
  shows "monthly_rows plan =
     map (\<lambda>i. step_row (plan_locals p) (int i + 1) (simulated_balance p i))
       [0..<length (monthly_rows plan)]"
proof -
  from assms obtain k where
    "monthly_rows plan = rows (sim_after (plan_locals p) (engine_start p) k)"
    by (rule calculate_trajectory)
  then have rows: "monthly_rows plan =
      map (\<lambda>i. step_row (plan_locals p) (int i + 1) (simulated_balance p i)) [0..<k]"
    by (simp add: rows_sim_after simulated_balance_def add.commute)
  then have "length (monthly_rows plan) = k"
    by simp
  with rows show ?thesis
    by simp
qed

lemma plan_row:
  assumes "calculate_debt_payoff_plan today p = Inr plan" and "i < length (monthly_rows plan)"
  shows "monthly_rows plan ! i = step_row (plan_locals p) (int i + 1) (simulated_balance p i)"
proof -
  have "map (\<lambda>i. step_row (plan_locals p) (int i + 1) (simulated_balance p i))
       [0..<length (monthly_rows plan)] ! i
      = step_row (plan_locals p) (int i + 1) (simulated_balance p i)"
    using assms(2) by simp
  then show ?thesis
    using plan_rows [OF assms(1)] by simp
qed

lemma plan_opening_balance:
  assumes "calculate_debt_payoff_plan today p = Inr plan" and "i \<le> length (monthly_rows plan)"
  shows "opening_balance plan i = simulated_balance p i"
proof (cases i)
  case 0
  then show ?thesis
    using calculate_initial_debt [OF assms(1)]
    by (simp add: opening_balance_def simulated_balance_def)
next
  case (Suc j)
  with assms(2) have "j < length (monthly_rows plan)"
    by simp
  from plan_row [OF assms(1) this]
  have "remaining_balance (monthly_rows plan ! j) = simulated_balance p (Suc j)"
    by (simp add: simulated_balance_def month_step_row add.commute)
  with Suc show ?thesis
    by (simp add: opening_balance_def)
qed


lemma plan_length:
  assumes "calculate_debt_payoff_plan today p = Inr plan"
    and "monthly_rows plan = rows (sim_after (plan_locals p) (engine_start p) k)"
  shows "length (monthly_rows plan) = k"
  using assms(2) by (simp add: rows_sim_after)

lemma plan_last_row:
  assumes "calculate_debt_payoff_plan today p = Inr plan"
    and "0 < length (monthly_rows plan)"
  shows "remaining_balance (last (monthly_rows plan)) =
           simulated_balance p (length (monthly_rows plan))"
proof -
  let ?n = "length (monthly_rows plan)"
  from assms(2) obtain j where n: "?n = Suc j"
    by (cases ?n) simp_all
  then have j: "j < ?n"
    by simp
  from assms(2) have "last (monthly_rows plan) = monthly_rows plan ! (?n - 1)"
    by (simp add: last_conv_nth)
  also have "\<dots> = monthly_rows plan ! j"
    using n by simp
  also have "\<dots> = step_row (plan_locals p) (int j + 1) (simulated_balance p j)"
    using assms(1) j by (rule plan_row)
  finally have "remaining_balance (last (monthly_rows plan)) = simulated_balance p (Suc j)"
    by (simp add: simulated_balance_def month_step_row add.commute)
  with n show ?thesis
    by simp
qed

subsection \<open>Overwritten one-time payments\<close>

lemma written_Cons:
  "written (otp # payments) by_month = written payments (by_month(month otp \<mapsto> amount otp))"
  by (simp add: written_def)

lemma written_overwritten:
  assumes "m \<in> set (map month payments)"
  shows "written payments (by_month(m \<mapsto> a)) = written payments by_month"
  using assms
proof (induction payments arbitrary: by_month)
  case Nil
  then show ?case by simp
next
  case (Cons otp payments)
  show ?case
  proof (cases "month otp = m")
    case True
    have "written (otp # payments) (by_month(m \<mapsto> a)) =
        written payments (by_month(m \<mapsto> a, m \<mapsto> amount otp))"
      unfolding written_Cons True ..
    also have "\<dots> = written payments (by_month(m \<mapsto> amount otp))"
      unfolding fun_upd_upd ..
    also have "\<dots> = written (otp # payments) by_month"
      unfolding written_Cons True ..
    finally show ?thesis .
  next
    case False
    with Cons.prems have later: "m \<in> set (map month payments)"
      by auto
    have "written (otp # payments) (by_month(m \<mapsto> a)) =
        written payments (by_month(m \<mapsto> a, month otp \<mapsto> amount otp))"
      unfolding written_Cons ..
    also have "by_month(m \<mapsto> a, month otp \<mapsto> amount otp)
        = by_month(month otp \<mapsto> amount otp, m \<mapsto> a)"
      using False by (intro fun_upd_twist) simp
    also have "written payments (by_month(month otp \<mapsto> amount otp, m \<mapsto> a)) =
        written payments (by_month(month otp \<mapsto> amount otp))"
      by (rule Cons.IH [OF later])
    also have "\<dots> = written (otp # payments) by_month"
      unfolding written_Cons ..
    finally show ?thesis .
  qed
qed

lemma written_last_per_month:
  "written (accepted (last_per_month xs)) by_month = written (accepted xs) by_month"
proof (induction xs arbitrary: by_month rule: accepted.induct)
  case 1
  then show ?case by simp
next
  case (2 m a d rest)
  let ?otp = "\<lparr>month = m, amount = py_round a 2,
      description = (case d of None \<Rightarrow> Some ''One-time payment'' | Some v \<Rightarrow> v)\<rparr>"
  have acc: "accepted (OtpDict (Some m) (Some a) d # rest) = ?otp # accepted rest"
    by simp
  show ?case
  proof (cases "m \<in> set (map month (accepted rest))")
    case True
    then have "written (accepted (last_per_month (OtpDict (Some m) (Some a) d # rest))) by_month
        = written (accepted rest) by_month"
      by (simp only: last_per_month.simps if_True "2.IH")
    also have "\<dots> = written (accepted rest) (by_month(m \<mapsto> py_round a 2))"
      using written_overwritten [OF True] by simp
    also have "\<dots> = written (?otp # accepted rest) by_month"
      unfolding written_Cons by simp
    finally show ?thesis
      unfolding acc .
  next
    case False
    then have "accepted (last_per_month (OtpDict (Some m) (Some a) d # rest))
        = ?otp # accepted (last_per_month rest)"
      by simp
    then have "written (accepted (last_per_month (OtpDict (Some m) (Some a) d # rest))) by_month
        = written (accepted (last_per_month rest)) (by_month(month ?otp \<mapsto> amount ?otp))"
      by (simp only: written_Cons)
    also have "\<dots> = written (accepted rest) (by_month(month ?otp \<mapsto> amount ?otp))"
      by (rule "2.IH")
    also have "\<dots> = written (?otp # accepted rest) by_month"
      by (simp only: written_Cons)
    finally show ?thesis
      unfolding acc .
  qed
qed simp_all

lemma accepted_last_per_month:
  "set (accepted (last_per_month xs)) \<subseteq> set (accepted xs)"
  by (induction xs rule: accepted.induct) auto

lemma plan_tentative_balance:
  assumes "calculate_debt_payoff_plan today p = Inr plan" and "i < length (monthly_rows plan)"
  shows "tentative_balance plan i =
     py_round (simulated_balance p i
       + py_round (simulated_balance p i * l_monthly_rate (plan_locals p)) 2
       - py_round (l_regular_payment (plan_locals p) + nominal (plan_locals p) (int i + 1)) 2) 2"
proof -
  have "opening_balance plan i = simulated_balance p i"
    using assms by (intro plan_opening_balance) simp_all
  then show ?thesis
    by (simp add: tentative_balance_def plan_interest_def plan_rate_eq [OF assms(1)]
        plan_regular_eq [OF assms(1)] plan_one_time_eq [OF assms(1)])
qed

lemma plan_one_time_unclamped:
  assumes "calculate_debt_payoff_plan today p = Inr plan" and "i < length (monthly_rows plan)"
    and "\<not> tentative_balance plan i < 0"
  shows "one_time_payment (monthly_rows plan ! i) = plan_one_time plan (int i + 1)"
proof -
  let ?l = "plan_locals p"
  let ?bal = "simulated_balance p i"
  let ?r = "step_row ?l (int i + 1) ?bal"
  let ?nb = "py_round (?bal + py_round (?bal * l_monthly_rate ?l) 2
        - py_round (l_regular_payment ?l + nominal ?l (int i + 1)) 2) 2"
  have "\<not> ?nb < 0"
    using assms(3) unfolding plan_tentative_balance [OF assms(1,2)] .
  then have "early_payoff ?bal (py_round (?bal * l_monthly_rate ?l) 2) (l_regular_payment ?l)
      (nominal ?l (int i + 1)) (py_round (l_regular_payment ?l + nominal ?l (int i + 1)) 2) ?nb
    = (l_regular_payment ?l, nominal ?l (int i + 1),
       py_round (l_regular_payment ?l + nominal ?l (int i + 1)) 2, ?nb)"
    by (rule early_payoff_unchanged)
  with step_row_payoff [of ?l "int i + 1" ?bal]
  have "one_time_payment ?r = nominal ?l (int i + 1)"
    by simp
  then show ?thesis
    unfolding plan_row [OF assms(1,2)] plan_one_time_eq [OF assms(1)] .
qed

lemma raw_payments_update [simp]:
  "raw_payments (p\<lparr>param_one_time_payments := Some xs\<rparr>) = xs"
  by (simp add: raw_payments_def)

lemma plan_locals_last_per_month:
  "plan_locals (p\<lparr>param_one_time_payments := Some (last_per_month (raw_payments p))\<rparr>)
     = plan_locals p"
  by (simp add: plan_locals_def engine_locals_def written_last_per_month)

lemma engine_start_update [simp]:
  "engine_start (p\<lparr>param_one_time_payments := xs\<rparr>) = engine_start p"
  by (simp add: engine_start_def)

lemma valid_params_last_per_month:
  assumes "valid_params p"
  shows "valid_params (p\<lparr>param_one_time_payments := Some (last_per_month (raw_payments p))\<rparr>)"
proof -
  from assms have "list_all (\<lambda>otp. 0 < month otp \<and> 0 < amount otp) (accepted (raw_payments p))"
    by (simp add: valid_params_def)
  with accepted_last_per_month [of "raw_payments p"]
  have "list_all (\<lambda>otp. 0 < month otp \<and> 0 < amount otp)
      (accepted (last_per_month (raw_payments p)))"
    by (auto simp: list_all_iff)
  with assms show ?thesis
    by (simp add: valid_params_def)
qed

lemma calculate_last_per_month:
  assumes "calculate_debt_payoff_plan today p = Inr plan"
  shows "\<exists>plan'. calculate_debt_payoff_plan today
           (p\<lparr>param_one_time_payments := Some (last_per_month (raw_payments p))\<rparr>) = Inr plan'
         \<and> monthly_rows plan' = monthly_rows plan
         \<and> total_one_time_payments plan' = total_one_time_payments plan
         \<and> total_regular_payments plan' = total_regular_payments plan
         \<and> total_interest_paid plan' = total_interest_paid plan
         \<and> final_balance plan' = final_balance plan
         \<and> is_debt_cleared plan' = is_debt_cleared plan
         \<and> months_to_payoff plan' = months_to_payoff plan"
proof -
  let ?p = "p\<lparr>param_one_time_payments := Some (last_per_month (raw_payments p))\<rparr>"
  have "valid_params ?p"
    using calculate_valid [OF assms] by (rule valid_params_last_per_month)
  from calculate_total [OF this] obtain plan' where
    plan': "calculate_debt_payoff_plan today ?p = Inr plan'" ..
  from assms obtain s c where
    run: "run_months (plan_locals p) [1..param_months p] (engine_start p) = (s, c)"
    and fields: "monthly_rows plan = rows s"
      "total_interest_paid plan = total_interest s"
      "total_regular_payments plan = total_regular s"
      "total_one_time_payments plan = total_one_time s"
      "final_balance plan = (case c of None \<Rightarrow> balance s | Some m \<Rightarrow> 0)"
      "is_debt_cleared plan = (c \<noteq> None)"
      "months_to_payoff plan = c"
    by (rule calculate_Inr)
  from plan' obtain s' c' where
    run': "run_months (plan_locals ?p) [1..param_months ?p] (engine_start ?p) = (s', c')"
    and fields': "monthly_rows plan' = rows s'"
      "total_interest_paid plan' = total_interest s'"
      "total_regular_payments plan' = total_regular s'"
      "total_one_time_payments plan' = total_one_time s'"
      "final_balance plan' = (case c' of None \<Rightarrow> balance s' | Some m \<Rightarrow> 0)"
      "is_debt_cleared plan' = (c' \<noteq> None)"
      "months_to_payoff plan' = c'"
    by (rule calculate_Inr)
  from run' have "run_months (plan_locals p) [1..param_months p] (engine_start p) = (s', c')"
    by (simp add: plan_locals_last_per_month)
  with run have same: "s' = s" "c' = c"
    by simp_all
  show ?thesis
    using plan' fields fields' [unfolded same]
    by (intro exI [of _ plan']) simp
qed

lemma calculate_recommended:
  assumes "calculate_debt_payoff_plan today p = Inr plan"
  shows "\<not> is_debt_cleared plan \<longrightarrow>
       (\<exists>r. recommended_payment plan = Some r
          \<and> calc_required_payment (initial_debt plan) (monthly_interest_rate plan)
              (months plan) (sum_list (map amount (accepted (raw_payments p)))) = Inr r)"
  by (rule calculate_Inr [OF assms])

subsection \<open>The simulated balances of scenarios B and C\<close>

lemma valid_B: "valid_params scenario_B"
  by (simp add: valid_params_def scenario_B_def raw_payments_def py_round_def Let_def floor_rat)

lemma valid_C: "valid_params scenario_C"
  by (simp add: valid_params_def scenario_C_def raw_payments_def py_round_def Let_def floor_rat)

lemma simulated_B:
  "simulated_balance scenario_B 1 = 2850" "simulated_balance scenario_B 2 = 0"
proof -
  have len: "length (monthly_rows (plan_B today)) = 2" for today
    by (simp add: plan_B_def rows_B_def)
  have "opening_balance (plan_B []) 1 = simulated_balance scenario_B 1"
    by (rule plan_opening_balance [OF calculate_B]) (simp add: len)
  then show "simulated_balance scenario_B 1 = 2850"
    by (simp add: opening_balance_def plan_B_def rows_B_def)
  have "opening_balance (plan_B []) 2 = simulated_balance scenario_B 2"
    by (rule plan_opening_balance [OF calculate_B]) (simp add: len)
  then show "simulated_balance scenario_B 2 = 0"
    by (simp add: opening_balance_def plan_B_def rows_B_def)
qed

lemma simulated_C:
  assumes "0 < k" and "int k \<le> 6"
  shows "0 < simulated_balance scenario_C k"
proof -
  have len: "length (monthly_rows (plan_C [])) = 6"
    by (simp add: plan_C_def rows_C_def)
  from assms have "k \<le> length (monthly_rows (plan_C []))"
    by (simp add: len)
  with calculate_C have eq: "opening_balance (plan_C []) k = simulated_balance scenario_C k"
    by (rule plan_opening_balance)
  from assms have "k = 1 \<or> k = 2 \<or> k = 3 \<or> k = 4 \<or> k = 5 \<or> k = 6"
    by linarith
  then have "0 < opening_balance (plan_C []) k"
    by (auto simp: opening_balance_def plan_C_def rows_C_def)
  with eq show ?thesis
    by simp
qed

subsection \<open>The early payoff adjustment\<close>



subsection \<open>The stop of the loop\<close>

text \<open>
  C2. For valid parameters the engine returns a plan. If month \<open>k\<close>, at most
  \<open>months\<close>, is the first month after which the simulated balance is at most zero, the
  plan is cleared, \<open>months_to_payoff\<close> is \<open>k\<close>, there are exactly \<open>k\<close> rows and the
  last row has the balance zero. If the simulated balance stays positive through all the
  months, the plan is not cleared, it has exactly \<open>months\<close> rows, \<open>months_to_payoff\<close> is
  unset and \<open>recommended_payment\<close> is set.
\<close>

theorem stop_at_first_cleared_month:
  assumes "valid_params p"
  shows "\<exists>plan. calculate_debt_payoff_plan today p = Inr plan
     \<and> (\<forall>k. 0 < k \<and> int k \<le> param_months p \<and> simulated_balance p k \<le> 0
            \<and> (\<forall>j. 0 < j \<and> j < k \<longrightarrow> 0 < simulated_balance p j)
          \<longrightarrow> is_debt_cleared plan \<and> months_to_payoff plan = Some (int k)
              \<and> length (monthly_rows plan) = k
              \<and> remaining_balance (last (monthly_rows plan)) = 0)
     \<and> ((\<forall>k. 0 < k \<and> int k \<le> param_months p \<longrightarrow> 0 < simulated_balance p k)
          \<longrightarrow> \<not> is_debt_cleared plan \<and> int (length (monthly_rows plan)) = param_months p
              \<and> months_to_payoff plan = None \<and> recommended_payment plan \<noteq> None)"
proof -
  from calculate_total [OF assms] obtain plan where
    plan: "calculate_debt_payoff_plan today p = Inr plan" ..
  from plan obtain n where
    rows: "monthly_rows plan = rows (sim_after (plan_locals p) (engine_start p) n)"
    and before: "\<forall>i. 0 < i \<and> i < n \<longrightarrow> 0 < simulated_balance p i"
    and n: "0 < n" "int n \<le> param_months p"
    and cleared: "is_debt_cleared plan \<longleftrightarrow> simulated_balance p n \<le> 0"
    and yes: "is_debt_cleared plan \<longrightarrow> months_to_payoff plan = Some (int n)"
    and no: "\<not> is_debt_cleared plan \<longrightarrow> months_to_payoff plan = None"
      "\<not> is_debt_cleared plan \<longrightarrow> int n = param_months p"
      "\<not> is_debt_cleared plan \<longrightarrow> recommended_payment plan \<noteq> None"
    by (rule calculate_trajectory)
  have len: "length (monthly_rows plan) = n"
    using plan rows by (rule plan_length)
  with n have last: "remaining_balance (last (monthly_rows plan)) = simulated_balance p n"
    using plan_last_row [OF plan] by simp
  have first: "is_debt_cleared plan \<and> months_to_payoff plan = Some (int k)
      \<and> length (monthly_rows plan) = k
      \<and> remaining_balance (last (monthly_rows plan)) = 0"
    if k: "0 < k" "int k \<le> param_months p" "simulated_balance p k \<le> 0"
      "\<forall>j. 0 < j \<and> j < k \<longrightarrow> 0 < simulated_balance p j" for k
  proof -
    have "\<not> k < n"
      using before k(1,3) by force
    moreover have "\<not> n < k"
    proof
      assume "n < k"
      with k(4) n(1) have pos: "0 < simulated_balance p n"
        by simp
      with cleared have "\<not> is_debt_cleared plan"
        by simp
      with no(2) have "int n = param_months p"
        by simp
      with \<open>n < k\<close> k(2) show False
        by simp
    qed
    ultimately have "n = k"
      by simp
    with k(3) cleared have c: "is_debt_cleared plan"
      by simp
    have "0 \<le> simulated_balance p k"
      unfolding simulated_balance_def using k(1) by (rule balance_sim_after_nonneg)
    with k(3) have "simulated_balance p k = 0"
      by simp
    with c yes len last \<open>n = k\<close> show ?thesis
      by simp
  qed
  have second: "\<not> is_debt_cleared plan \<and> int (length (monthly_rows plan)) = param_months p
      \<and> months_to_payoff plan = None \<and> recommended_payment plan \<noteq> None"
    if all: "\<forall>k. 0 < k \<and> int k \<le> param_months p \<longrightarrow> 0 < simulated_balance p k"
  proof -
    from all n have "0 < simulated_balance p n"
      by simp
    with cleared have "\<not> is_debt_cleared plan"
      by simp
    with no len show ?thesis
      by simp
  qed
  from plan first second show ?thesis
    by blast
qed

theorem stop_at_first_cleared_month_witness:
  "valid_params scenario_B
   \<and> simulated_balance scenario_B 1 = 2850 \<and> simulated_balance scenario_B 2 = 0
   \<and> calculate_debt_payoff_plan ''2025-01-01'' scenario_B = Inr (plan_B ''2025-01-01'')
   \<and> is_debt_cleared (plan_B ''2025-01-01'')
   \<and> months_to_payoff (plan_B ''2025-01-01'') = Some 2
   \<and> length (monthly_rows (plan_B ''2025-01-01'')) = 2
   \<and> remaining_balance (last (monthly_rows (plan_B ''2025-01-01''))) = 0
   \<and> valid_params scenario_C
   \<and> calculate_debt_payoff_plan ''2025-01-01'' scenario_C = Inr (plan_C ''2025-01-01'')
   \<and> \<not> is_debt_cleared (plan_C ''2025-01-01'')
   \<and> int (length (monthly_rows (plan_C ''2025-01-01''))) = param_months scenario_C
   \<and> months_to_payoff (plan_C ''2025-01-01'') = None
   \<and> recommended_payment (plan_C ''2025-01-01'') \<noteq> None"
proof -
  let ?today = "''2025-01-01''"
  from stop_at_first_cleared_month [OF valid_B, of ?today] calculate_B [of ?today]
  have first: "\<forall>k. 0 < k \<and> int k \<le> param_months scenario_B \<and> simulated_balance scenario_B k \<le> 0
            \<and> (\<forall>j. 0 < j \<and> j < k \<longrightarrow> 0 < simulated_balance scenario_B j)
          \<longrightarrow> is_debt_cleared (plan_B ?today) \<and> months_to_payoff (plan_B ?today) = Some (int k)
              \<and> length (monthly_rows (plan_B ?today)) = k
              \<and> remaining_balance (last (monthly_rows (plan_B ?today))) = 0"
    by auto
  have before: "\<forall>j::nat. 0 < j \<and> j < 2 \<longrightarrow> 0 < simulated_balance scenario_B j"
  proof (intro allI impI)
    fix j :: nat assume "0 < j \<and> j < 2"
    then have "j = 1" by simp
    with simulated_B(1) show "0 < simulated_balance scenario_B j"
      by simp
  qed
  have months: "int 2 \<le> param_months scenario_B"
    by (simp add: scenario_B_def)
  have "is_debt_cleared (plan_B ?today)
      \<and> months_to_payoff (plan_B ?today) = Some (int 2)
      \<and> length (monthly_rows (plan_B ?today)) = 2
      \<and> remaining_balance (last (monthly_rows (plan_B ?today))) = 0"
  proof (rule first [rule_format, of 2])
    show "0 < (2::nat) \<and> int 2 \<le> param_months scenario_B
        \<and> simulated_balance scenario_B 2 \<le> 0
        \<and> (\<forall>j. 0 < j \<and> j < 2 \<longrightarrow> 0 < simulated_balance scenario_B j)"
      using before months simulated_B(2) by simp
  qed
  then have cleared: "is_debt_cleared (plan_B ?today)
      \<and> months_to_payoff (plan_B ?today) = Some 2
      \<and> length (monthly_rows (plan_B ?today)) = 2
      \<and> remaining_balance (last (monthly_rows (plan_B ?today))) = 0"
    by simp
  from stop_at_first_cleared_month [OF valid_C, of ?today] calculate_C [of ?today]
  have "(\<forall>k. 0 < k \<and> int k \<le> param_months scenario_C \<longrightarrow> 0 < simulated_balance scenario_C k)
          \<longrightarrow> \<not> is_debt_cleared (plan_C ?today)
              \<and> int (length (monthly_rows (plan_C ?today))) = param_months scenario_C
              \<and> months_to_payoff (plan_C ?today) = None
              \<and> recommended_payment (plan_C ?today) \<noteq> None"
    by auto
  moreover have "\<forall>k. 0 < k \<and> int k \<le> param_months scenario_C
      \<longrightarrow> 0 < simulated_balance scenario_C k"
    using simulated_C by (simp add: scenario_C_def)
  ultimately have open_plan: "\<not> is_debt_cleared (plan_C ?today)
      \<and> int (length (monthly_rows (plan_C ?today))) = param_months scenario_C
      \<and> months_to_payoff (plan_C ?today) = None
      \<and> recommended_payment (plan_C ?today) \<noteq> None"
    by blast
  from valid_B valid_C simulated_B calculate_B [of ?today] calculate_C [of ?today]
    cleared open_plan
  show ?thesis
    by simp
qed

subsection \<open>Scenario A\<close>

text \<open>
  C3. With salary 12000, fixed expenses 7500, debt 20000, a monthly rate of 2.5 percent,
  6 months, a savings rate of 10 percent and no one-time payment, the engine returns a
  plan whose first row has interest 500.00, savings 1200.00, regular payment 3300.00,
  total payment 3300.00 and remaining balance 17200.00.
\<close>

theorem scenario_A_first_month:
  "\<exists>plan. calculate_debt_payoff_plan today scenario_A = Inr plan
     \<and> monthly_rows plan \<noteq> []
     \<and> interest_charged (hd (monthly_rows plan)) = 500
     \<and> savings_amount (hd (monthly_rows plan)) = 1200
     \<and> debt_payment (hd (monthly_rows plan)) = 3300
     \<and> total_payment (hd (monthly_rows plan)) = 3300
     \<and> remaining_balance (hd (monthly_rows plan)) = 17200"
  unfolding calculate_A
  by (simp add: plan_A_def rows_A_def)

subsection \<open>The balance of a row\<close>

text \<open>
  C4. Every row of a plan that the engine returns has a remaining balance of at least
  zero: the early payoff check replaces a negative tentative balance by zero.
\<close>

theorem remaining_balance_never_negative:
  assumes "calculate_debt_payoff_plan today p = Inr plan"
  shows "\<forall>row \<in> set (monthly_rows plan). 0 \<le> remaining_balance row"
proof -
  from assms obtain k where
    "monthly_rows plan = rows (sim_after (plan_locals p) (engine_start p) k)"
    by (rule calculate_trajectory)
  then show ?thesis
    by (auto simp: rows_sim_after step_row_nonneg)
qed

theorem remaining_balance_never_negative_witness:
  "calculate_debt_payoff_plan ''2025-01-01'' scenario_B = Inr (plan_B ''2025-01-01'')
   \<and> list_all (\<lambda>row. 0 \<le> remaining_balance row) (monthly_rows (plan_B ''2025-01-01''))"
  using remaining_balance_never_negative [OF calculate_B [of "''2025-01-01''"]]
    calculate_B [of "''2025-01-01''"]
  by (simp add: list_all_iff)

subsection \<open>Conservation\<close>



subsection \<open>The required payment\<close>




subsection \<open>The plan validator\<close>

text \<open>
  C7. When \<open>round(salary - fixed_expenses - round(salary * savings_rate, 2), 2)\<close> is at
  most zero, the validator returns the one message "No cash for debt: expenses+savings >=
  salary" and nothing else, whatever the one-time payments and the rows of the plan are:
  the range check and the checks of the rows are not run.
\<close>

theorem validate_plan_no_cash:
  assumes "py_round (salary plan - fixed_expenses plan
             - py_round (salary plan * savings_rate plan) 2) 2 \<le> 0"
  shows "validate_plan plan = [[Txt ''No cash for debt: expenses+savings >= salary'']]"
  using assms by (simp add: validate_plan_def)

theorem validate_plan_no_cash_witness:
  "validate_plan
     (plan_D\<lparr>one_time_payments := [\<lparr>month = 7, amount = 100, description = None\<rparr>],
              monthly_rows :=
                [\<lparr>row_month = 1, row_salary = 5000, row_fixed_expenses = 6000,
                  savings_amount = 500, debt_payment = 4000, one_time_payment = 0,
                  total_payment = 4000, interest_charged = 10, remaining_balance = - 2990\<rparr>]\<rparr>)
   = [[Txt ''No cash for debt: expenses+savings >= salary'']]
   \<and> check_bonus_month 1 \<lparr>month = 7, amount = 100, description = None\<rparr> \<noteq> []
   \<and> check_rows 1000
        [\<lparr>row_month = 1, row_salary = 5000, row_fixed_expenses = 6000,
          savings_amount = 500, debt_payment = 4000, one_time_payment = 0,
          total_payment = 4000, interest_charged = 10, remaining_balance = - 2990\<rparr>] \<noteq> []"
proof -
  have "py_round (salary plan_D - fixed_expenses plan_D
          - py_round (salary plan_D * savings_rate plan_D) 2) 2 \<le> 0"
    by (simp add: plan_D_def py_round_def)
  then show ?thesis
    using validate_plan_no_cash
      [of "plan_D\<lparr>one_time_payments := [\<lparr>month = 7, amount = 100, description = None\<rparr>],
              monthly_rows :=
                [\<lparr>row_month = 1, row_salary = 5000, row_fixed_expenses = 6000,
                  savings_amount = 500, debt_payment = 4000, one_time_payment = 0,
                  total_payment = 4000, interest_charged = 10, remaining_balance = - 2990\<rparr>]\<rparr>"]
    by (simp add: check_bonus_month_def py_round_def)
qed

subsection \<open>Parameter extraction\<close>

lemma extract_parameters_missing:
  assumes "k \<in> set required"
    and "apply_defaults (if dom previous_params \<noteq> {}
           then merge_previous previous_params loaded else loaded) k = None"
  shows "extract_parameters previous_params (Some loaded) = None"
proof -
  have "\<not> list_all (\<lambda>k. apply_defaults (if dom previous_params \<noteq> {}
           then merge_previous previous_params loaded else loaded) k \<noteq> None) required"
    using assms by (auto simp: list_all_iff)
  then show ?thesis
    by (simp add: extract_parameters_def Let_def)
qed

text \<open>
  C8, as the code has it. When a required key is still absent after the merge and the
  defaults, the extraction returns \<^verbatim>\<open>None\<close>, and the executor answers with the error
  \<^verbatim>\<open>parameter_extraction_failed\<close> and its fixed list of required names, the same list
  whichever keys are absent; nothing is put into the store.
\<close>

theorem extraction_failure_lists_all_required:
  assumes "k \<in> set required"
    and "apply_defaults (if dom previous_params \<noteq> {}
           then merge_previous previous_params loaded else loaded) k = None"
  shows "finance_debt_payoff_executor coerce today key assistant_type user_id st
           previous_params (Some loaded) =
         (ParameterExtractionFailed reported_required, st)"
  using extract_parameters_missing [OF assms]
  by (simp add: finance_debt_payoff_executor_def)

theorem extraction_failure_lists_all_required_witness:
  "''months'' \<in> set required
   \<and> apply_defaults (if dom (Map.empty :: pydict) \<noteq> {}
        then merge_previous Map.empty [''salary'' \<mapsto> JNum 12000]
        else [''salary'' \<mapsto> JNum 12000]) ''months'' = None
   \<and> finance_debt_payoff_executor (read_as scenario_A) ''2025-01-01'' ''plan_1'' ''finance'' ''u1'' []
        Map.empty (Some [''salary'' \<mapsto> JNum 12000]) =
      (ParameterExtractionFailed reported_required, [])
   \<and> finance_debt_payoff_executor (read_as scenario_A) ''2025-01-01'' ''plan_1'' ''finance'' ''u1'' []
        Map.empty (Some [''months'' \<mapsto> JNum 6]) =
      (ParameterExtractionFailed reported_required, [])"
proof -
  have k: "''months'' \<in> set required" and k': "''salary'' \<in> set required"
    by (simp_all add: required_def)
  have absent: "apply_defaults (if dom (Map.empty :: pydict) \<noteq> {}
        then merge_previous Map.empty [''salary'' \<mapsto> JNum 12000]
        else [''salary'' \<mapsto> JNum 12000]) ''months'' = None"
    by (simp add: apply_defaults_def setdefault_def)
  have absent': "apply_defaults (if dom (Map.empty :: pydict) \<noteq> {}
        then merge_previous Map.empty [''months'' \<mapsto> JNum 6]
        else [''months'' \<mapsto> JNum 6]) ''salary'' = None"
    by (simp add: apply_defaults_def setdefault_def)
  show ?thesis
    using k absent extraction_failure_lists_all_required [OF k absent]
      extraction_failure_lists_all_required [OF k' absent']
    by blast
qed

text \<open>
  C8, as the claim has it, fails: with only \<^verbatim>\<open>salary\<close> supplied, the list of the error
  names \<^verbatim>\<open>salary\<close>, a key that is present after the defaults.
\<close>

theorem extraction_failure_names_supplied_key:
  "fst (finance_debt_payoff_executor (read_as scenario_A) ''2025-01-01'' ''plan_1'' ''finance''
     ''u1'' [] Map.empty (Some [''salary'' \<mapsto> JNum 12000])) =
     ParameterExtractionFailed reported_required
   \<and> ''salary'' \<in> set reported_required
   \<and> apply_defaults [''salary'' \<mapsto> JNum 12000] ''salary'' = Some (JNum 12000)"
  by (simp add: finance_debt_payoff_executor_def extract_parameters_def apply_defaults_def
      setdefault_def required_def reported_required_def)

subsection \<open>The executor\<close>

text \<open>
  C9. When the engine has computed a plan and the validator returns a non-empty list for
  it, the executor returns that list together with the plan as a failure, and the store is
  the one it was given: no call of \<^verbatim>\<open>put\<close> is made.
\<close>

theorem invalid_plan_not_stored:
  assumes "extract_parameters previous_params reply = Some d"
    and "dom d \<noteq> {}"
    and "coerce d = Inr p"
    and "calculate_debt_payoff_plan today p = Inr plan"
    and "validate_plan plan \<noteq> []"
  shows "finance_debt_payoff_executor coerce today key assistant_type user_id st
           previous_params reply =
         (ValidationFailed (validate_plan plan) plan, st)"
  using assms by (simp add: finance_debt_payoff_executor_def Let_def)


theorem invalid_plan_not_stored_witness:
  "finance_debt_payoff_executor (read_as scenario_D) ''2025-01-01'' ''plan_1'' ''finance'' ''u1'' []
     Map.empty (Some reply_D) =
   (ValidationFailed [[Txt ''No cash for debt: expenses+savings >= salary'']] plan_D, [])"
proof -
  have extracted: "extract_parameters Map.empty (Some reply_D) = Some (apply_defaults reply_D)"
    by (simp add: extract_parameters_def apply_defaults_def setdefault_def required_def
        reply_D_def)
  have "apply_defaults reply_D ''salary'' = Some (JNum 5000)"
    by (simp add: apply_defaults_def setdefault_def reply_D_def)
  then have nonempty: "dom (apply_defaults reply_D) \<noteq> {}"
    by auto
  have coerce: "read_as scenario_D (apply_defaults reply_D) = Inr scenario_D"
    by (simp add: read_as_def)
  have invalid: "validate_plan plan_D \<noteq> []"
    by (simp add: validate_D)
  show ?thesis
    using invalid_plan_not_stored
      [where coerce = "read_as scenario_D", OF extracted nonempty coerce calculate_D invalid]
    by (simp add: validate_D)
qed

subsection \<open>Several one-time payments in one month\<close>

text \<open>
  C10. The plan echoes every one-time payment of the input. The simulation takes, for a
  month, the amount of the last payment listed for that month: a row that is not clamped
  reports that amount, and the rows, the totals and the outcome of the plan are those of
  the plan computed from the input without the overwritten entries, so that an earlier
  entry of the same month contributes nothing. When the debt is not cleared, the bonus
  passed to the required payment is the sum of the amounts of all the entries.
\<close>

theorem same_month_last_entry_wins:
  assumes "calculate_debt_payoff_plan today p = Inr plan"
  shows "one_time_payments plan = accepted (raw_payments p)
     \<and> (\<forall>i. i < length (monthly_rows plan) \<and> \<not> tentative_balance plan i < 0
           \<longrightarrow> one_time_payment (monthly_rows plan ! i) = plan_one_time plan (int i + 1))
     \<and> (\<exists>plan'. calculate_debt_payoff_plan today
           (p\<lparr>param_one_time_payments := Some (last_per_month (raw_payments p))\<rparr>) = Inr plan'
         \<and> monthly_rows plan' = monthly_rows plan
         \<and> total_one_time_payments plan' = total_one_time_payments plan
         \<and> total_regular_payments plan' = total_regular_payments plan
         \<and> total_interest_paid plan' = total_interest_paid plan
         \<and> final_balance plan' = final_balance plan
         \<and> is_debt_cleared plan' = is_debt_cleared plan
         \<and> months_to_payoff plan' = months_to_payoff plan)
     \<and> (\<not> is_debt_cleared plan \<longrightarrow>
          (\<exists>r. recommended_payment plan = Some r
             \<and> calc_required_payment (initial_debt plan) (monthly_interest_rate plan)
                 (months plan) (sum_list (map amount (accepted (raw_payments p)))) = Inr r))"
proof (intro conjI)
  show "one_time_payments plan = accepted (raw_payments p)"
    by (rule calculate_Inr [OF assms])
  show "\<forall>i. i < length (monthly_rows plan) \<and> \<not> tentative_balance plan i < 0
      \<longrightarrow> one_time_payment (monthly_rows plan ! i) = plan_one_time plan (int i + 1)"
    using plan_one_time_unclamped [OF assms] by blast
  show "\<exists>plan'. calculate_debt_payoff_plan today
           (p\<lparr>param_one_time_payments := Some (last_per_month (raw_payments p))\<rparr>) = Inr plan'
         \<and> monthly_rows plan' = monthly_rows plan
         \<and> total_one_time_payments plan' = total_one_time_payments plan
         \<and> total_regular_payments plan' = total_regular_payments plan
         \<and> total_interest_paid plan' = total_interest_paid plan
         \<and> final_balance plan' = final_balance plan
         \<and> is_debt_cleared plan' = is_debt_cleared plan
         \<and> months_to_payoff plan' = months_to_payoff plan"
    using assms by (rule calculate_last_per_month)
  show "\<not> is_debt_cleared plan \<longrightarrow>
          (\<exists>r. recommended_payment plan = Some r
             \<and> calc_required_payment (initial_debt plan) (monthly_interest_rate plan)
                 (months plan) (sum_list (map amount (accepted (raw_payments p)))) = Inr r)"
    using assms by (rule calculate_recommended)
qed

theorem same_month_last_entry_wins_witness:
  "calculate_debt_payoff_plan ''2025-01-01'' scenario_C = Inr (plan_C ''2025-01-01'')
   \<and> raw_payments scenario_C =
       [OtpDict (Some 3) (Some 1000) None, OtpDict (Some 3) (Some 2000) (Some (Some ''Bonus''))]
   \<and> one_time_payments (plan_C ''2025-01-01'') =
       [\<lparr>month = 3, amount = 1000, description = Some ''One-time payment''\<rparr>,
        \<lparr>month = 3, amount = 2000, description = Some ''Bonus''\<rparr>]
   \<and> plan_one_time (plan_C ''2025-01-01'') 3 = 2000
   \<and> one_time_payment (monthly_rows (plan_C ''2025-01-01'') ! 2) = 2000
   \<and> total_one_time_payments (plan_C ''2025-01-01'') = 2000
   \<and> last_per_month (raw_payments scenario_C) = [OtpDict (Some 3) (Some 2000) (Some (Some ''Bonus''))]
   \<and> sum_list (map amount (accepted (raw_payments scenario_C))) = 3000
   \<and> \<not> is_debt_cleared (plan_C ''2025-01-01'')
   \<and> recommended_payment (plan_C ''2025-01-01'') = Some 4901.85
   \<and> calc_required_payment (initial_debt (plan_C ''2025-01-01''))
         (monthly_interest_rate (plan_C ''2025-01-01'')) (months (plan_C ''2025-01-01''))
         3000 = Inr 4901.85"
proof -
  let ?plan = "plan_C ''2025-01-01''"
  note wins = same_month_last_entry_wins [OF calculate_C [of "''2025-01-01''"]]
  have raw: "raw_payments scenario_C =
       [OtpDict (Some 3) (Some 1000) None, OtpDict (Some 3) (Some 2000) (Some (Some ''Bonus''))]"
    by (simp add: raw_payments_def scenario_C_def)
  have acc: "accepted (raw_payments scenario_C) =
       [\<lparr>month = 3, amount = 1000, description = Some ''One-time payment''\<rparr>,
        \<lparr>month = 3, amount = 2000, description = Some ''Bonus''\<rparr>]"
    unfolding raw by (simp add: py_round_def)
  from wins have echo: "one_time_payments ?plan = accepted (raw_payments scenario_C)"
    by blast
  have open_plan: "\<not> is_debt_cleared ?plan"
    by (simp add: plan_C_def)
  with wins obtain r where r: "recommended_payment ?plan = Some r"
    "calc_required_payment (initial_debt ?plan) (monthly_interest_rate ?plan) (months ?plan)
       (sum_list (map amount (accepted (raw_payments scenario_C)))) = Inr r"
    by blast
  have bonus: "sum_list (map amount (accepted (raw_payments scenario_C))) = 3000"
    unfolding acc by simp
  have "recommended_payment ?plan = Some 4901.85"
    by (simp add: plan_C_def)
  with r(1) have "r = 4901.85"
    by simp
  with r(2) have solver: "calc_required_payment (initial_debt ?plan)
      (monthly_interest_rate ?plan) (months ?plan) 3000 = Inr 4901.85"
    unfolding bonus by simp
  have lookup: "plan_one_time ?plan 3 = 2000"
    unfolding plan_one_time_def echo acc by simp
  have row: "one_time_payment (monthly_rows ?plan ! 2) = 2000"
    "total_one_time_payments ?plan = 2000"
    "recommended_payment ?plan = Some 4901.85"
    by (simp_all add: plan_C_def rows_C_def)
  have kept: "last_per_month (raw_payments scenario_C) =
      [OtpDict (Some 3) (Some 2000) (Some (Some ''Bonus''))]"
    unfolding raw by simp
  from calculate_C [of "''2025-01-01''"] raw echo [unfolded acc] lookup row kept bonus
    open_plan solver
  show ?thesis
    by blast
qed

end
